theory Spec2Isabelle
  imports Complex_Main "HOL-Library.Sublist"
begin

section \<open>Vertical composition engine (design.py): the model\<close>

text \<open>
  A shallow embedding of \<^verbatim>\<open>design.py\<close>: the crop geometry (\<^verbatim>\<open>expand_crop_box\<close>),
  the region selection (\<^verbatim>\<open>pick_primary_crop\<close>), the path escaping
  (\<^verbatim>\<open>escape_for_subtitles\<close>), the filter graph (\<^verbatim>\<open>build_filtergraph\<close>), the render
  command (\<^verbatim>\<open>ff_design\<close>, \<^verbatim>\<open>run\<close>) and the per-clip loop of \<^verbatim>\<open>main\<close>.
\<close>

subsection \<open>Numbers\<close>

text \<open>
  Python's \<^verbatim>\<open>int\<close> is unbounded: \<^typ>\<open>int\<close>. A finite Python \<^verbatim>\<open>float\<close> is a rational
  number: \<^typ>\<open>rat\<close>. Every floating-point operation of the source is written as the exact
  operation followed by a rounding function \<open>rnd\<close>, which is a parameter of the model:
  IEEE-754 arithmetic returns the exact result rounded to the nearest representable number,
  which is such a function, and it is monotone, maps \<open>0\<close> to \<open>0\<close> and leaves every integer
  of magnitude up to \<open>2^53\<close> unchanged. Taking \<open>rnd\<close> to be the identity gives exact
  arithmetic. Infinities and NaN are outside the model.
\<close>

type_synonym pyfloat = rat

text \<open>\<^verbatim>\<open>int(f)\<close> on a float truncates toward zero.\<close>

definition py_int :: "pyfloat \<Rightarrow> int" where
  "py_int r = (if 0 \<le> r then \<lfloor>r\<rfloor> else \<lceil>r\<rceil>)"

text \<open>
  A rounding function that leaves the integers of magnitude up to \<open>B\<close> unchanged. With
  monotonicity (\<^const>\<open>mono\<close>) this is all that the theorems below ask of \<open>rnd\<close>.
\<close>

definition exact_upto :: "int \<Rightarrow> (rat \<Rightarrow> pyfloat) \<Rightarrow> bool" where
  "exact_upto B rnd = (\<forall>n. \<bar>n\<bar> \<le> B \<longrightarrow> rnd (of_int n) = of_int n)"

subsection \<open>Geometry: \<^verbatim>\<open>expand_crop_box\<close>\<close>

type_synonym crop_box = "int \<times> int \<times> int \<times> int"

text \<open>
  \<^verbatim>\<open>
  x, y, w, h = crop_box
  center_x = x + w / 2
  center_y = y + h / 2
  new_w = int(w * expansion_factor)
  new_h = int(h * expansion_factor)
  new_x = int(center_x - new_w / 2)
  new_y = int(center_y - new_h / 2)
  new_x = max(0, new_x)
  new_y = max(0, new_y)
  new_w = min(new_w, video_w - new_x)
  new_h = min(new_h, video_h - new_y)
  return (new_x, new_y, new_w, new_h)
  \<close>
  \<^verbatim>\<open>w / 2\<close> is the true division of two integers (a float); in \<^verbatim>\<open>x + w / 2\<close> and
  \<^verbatim>\<open>w * expansion_factor\<close> the integer operand is converted to a float first.
\<close>

definition expand_crop_box ::
  "(rat \<Rightarrow> pyfloat) \<Rightarrow> crop_box \<Rightarrow> int \<Rightarrow> int \<Rightarrow> pyfloat \<Rightarrow> crop_box" where
  "expand_crop_box rnd crop_box video_w video_h expansion_factor =
    (case crop_box of (x, y, w, h) \<Rightarrow>
      let center_x = rnd (rnd (of_int x) + rnd (of_int w / 2));
          center_y = rnd (rnd (of_int y) + rnd (of_int h / 2));
          new_w = py_int (rnd (rnd (of_int w) * expansion_factor));
          new_h = py_int (rnd (rnd (of_int h) * expansion_factor));
          new_x = py_int (rnd (center_x - rnd (of_int new_w / 2)));
          new_y = py_int (rnd (center_y - rnd (of_int new_h / 2)));
          new_x = max 0 new_x;
          new_y = max 0 new_y;
          new_w = min new_w (video_w - new_x);
          new_h = min new_h (video_h - new_y)
      in (new_x, new_y, new_w, new_h))"

text \<open>
  The algorithm of the specification, in its words: centroid, new extents by \<open>floor\<close>, new
  origin by \<open>floor\<close>, origin clamped to \<open>max(0, .)\<close>, then extents clamped to the frame. It is
  written over the same arithmetic as the code, so that the two differ only where the
  specification says \<open>floor\<close> and the code truncates.
\<close>

definition spec_expand ::
  "(rat \<Rightarrow> pyfloat) \<Rightarrow> crop_box \<Rightarrow> int \<Rightarrow> int \<Rightarrow> pyfloat \<Rightarrow> crop_box" where
  "spec_expand rnd rect frame_w frame_h factor =
    (case rect of (x, y, w, h) \<Rightarrow>
      let cx = rnd (rnd (of_int x) + rnd (of_int w / 2));
          cy = rnd (rnd (of_int y) + rnd (of_int h / 2));
          w' = \<lfloor>rnd (rnd (of_int w) * factor)\<rfloor>;
          h' = \<lfloor>rnd (rnd (of_int h) * factor)\<rfloor>;
          x' = \<lfloor>rnd (cx - rnd (of_int w' / 2))\<rfloor>;
          y' = \<lfloor>rnd (cy - rnd (of_int h' / 2))\<rfloor>;
          x'' = max 0 x';
          y'' = max 0 y';
          w'' = min w' (frame_w - x'');
          h'' = min h' (frame_h - y'')
      in (x'', y'', w'', h''))"

text \<open>The Rectangle invariant of the specification's data model.\<close>

definition rectangle_invariant :: "crop_box \<Rightarrow> int \<Rightarrow> int \<Rightarrow> bool" where
  "rectangle_invariant rect frame_w frame_h =
    (case rect of (x, y, w, h) \<Rightarrow>
      0 \<le> x \<and> 0 \<le> y \<and> x + w \<le> frame_w \<and> y + h \<le> frame_h \<and> 0 < w \<and> 0 < h)"

definition area :: "crop_box \<Rightarrow> int" where
  "area rect = (case rect of (x, y, w, h) \<Rightarrow> w * h)"

text \<open>A rectangle that lies in \<open>[0, frame_w] \<times> [0, frame_h]\<close>.\<close>

definition within_frame :: "crop_box \<Rightarrow> int \<Rightarrow> int \<Rightarrow> bool" where
  "within_frame rect frame_w frame_h =
    (case rect of (x, y, w, h) \<Rightarrow>
      0 \<le> x \<and> 0 \<le> y \<and> 0 \<le> w \<and> 0 \<le> h \<and> x + w \<le> frame_w \<and> y + h \<le> frame_h)"

subsection \<open>Strings\<close>

text \<open>
  A Python \<^verbatim>\<open>str\<close> is a \<^typ>\<open>string\<close>. The backslash and the single quote cannot stand
  in a string literal here, so they are named.
\<close>

abbreviation bslash :: char where "bslash \<equiv> CHR 0x5C"
abbreviation squote :: char where "squote \<equiv> CHR 0x27"

text \<open>
  \<^verbatim>\<open>s.replace(old, new)\<close>: every non-overlapping occurrence of \<open>old\<close>, found from the left,
  becomes \<open>new\<close>. An empty \<open>old\<close> matches before every character and at the end.
\<close>

function replace_from :: "string \<Rightarrow> string \<Rightarrow> string \<Rightarrow> string" where
  "replace_from old new [] = []"
| "replace_from old new (c # cs) =
    (if old \<noteq> [] \<and> prefix old (c # cs)
     then new @ replace_from old new (drop (length old) (c # cs))
     else c # replace_from old new cs)"
  by pat_completeness auto
termination
  by (relation "measure (\<lambda>(old, new, s). length s)") auto

definition str_replace :: "string \<Rightarrow> string \<Rightarrow> string \<Rightarrow> string" where
  "str_replace old new s =
    (if old = [] then new @ concat (map (\<lambda>c. c # new) s) else replace_from old new s)"

text \<open>\<^verbatim>\<open>str(n)\<close> and \<^verbatim>\<open>f"{n}"\<close> for an integer: its decimal digits, with a sign.\<close>

fun str_nat :: "nat \<Rightarrow> string" where
  "str_nat n =
    (if n < 10 then [''0123456789'' ! n]
     else str_nat (n div 10) @ [''0123456789'' ! (n mod 10)])"

declare str_nat.simps [simp del]

definition str_int :: "int \<Rightarrow> string" where
  "str_int i = (if i < 0 then CHR ''-'' # str_nat (nat (- i)) else str_nat (nat i))"

text \<open>\<^verbatim>\<open>sep.join(parts)\<close>.\<close>

fun join :: "string \<Rightarrow> string list \<Rightarrow> string" where
  "join sep [] = []"
| "join sep [p] = p"
| "join sep (p # q # ps) = p @ sep @ join sep (q # ps)"

subsection \<open>Paths\<close>

text \<open>
  A \<^verbatim>\<open>pathlib.Path\<close> is represented by the string \<^verbatim>\<open>str(path)\<close>, which is taken to be
  in pathlib's normal form already (no repeated or trailing separator). \<^verbatim>\<open>name\<close>,
  \<^verbatim>\<open>suffix\<close>, \<^verbatim>\<open>stem\<close> and \<^verbatim>\<open>with_suffix\<close> follow pathlib: the suffix starts at the last
  dot of the final component, unless that dot is its first or its last character.
\<close>

type_synonym path = string

text \<open>\<^verbatim>\<open>s.rfind(c)\<close>: the index of the last occurrence, or \<open>-1\<close>.\<close>

definition rfind :: "char \<Rightarrow> string \<Rightarrow> int" where
  "rfind c s = (case filter (\<lambda>i. s ! i = c) (rev [0..<length s]) of [] \<Rightarrow> - 1 | i # _ \<Rightarrow> int i)"

definition path_name :: "path \<Rightarrow> string" where
  "path_name p = drop (nat (rfind CHR ''/'' p + 1)) p"

definition path_suffix :: "path \<Rightarrow> string" where
  "path_suffix p =
    (let name = path_name p; i = rfind CHR ''.'' name
     in if 0 < i \<and> i < int (length name) - 1 then drop (nat i) name else [])"

definition path_stem :: "path \<Rightarrow> string" where
  "path_stem p =
    (let name = path_name p; i = rfind CHR ''.'' name
     in if 0 < i \<and> i < int (length name) - 1 then take (nat i) name else name)"

definition with_suffix :: "path \<Rightarrow> string \<Rightarrow> path" where
  "with_suffix p sfx = take (length p - length (path_suffix p)) p @ sfx"

text \<open>\<^verbatim>\<open>directory / name\<close> for a final component \<open>name\<close>.\<close>

definition joinpath :: "path \<Rightarrow> string \<Rightarrow> path" where
  "joinpath d name =
    (if d = ''.'' then name
     else if d \<noteq> [] \<and> last d = CHR ''/'' then d @ name
     else d @ ''/'' @ name)"

subsection \<open>Region selection: \<^verbatim>\<open>pick_primary_crop\<close>\<close>

text \<open>
  The object returned by the detector is duck-typed: the source reads every attribute with
  \<^verbatim>\<open>getattr(obj, name, default)\<close>, so each attribute may be missing.
\<close>

record segment =
  seg_start :: "pyfloat option"
  seg_end :: "pyfloat option"
  seg_x :: "pyfloat option"
  seg_y :: "pyfloat option"
  seg_w :: "pyfloat option"
  seg_h :: "pyfloat option"

record crops =
  segments :: "segment list option"

definition getattr :: "'a option \<Rightarrow> 'a \<Rightarrow> 'a" where
  "getattr attr dflt = (case attr of None \<Rightarrow> dflt | Some v \<Rightarrow> v)"

text \<open>The sort key of a segment: \<^verbatim>\<open>getattr(s, "end", 0) - getattr(s, "start", 0)\<close>.\<close>

definition span :: "(rat \<Rightarrow> pyfloat) \<Rightarrow> segment \<Rightarrow> pyfloat" where
  "span rnd s = rnd (getattr (seg_end s) 0 - getattr (seg_start s) 0)"

text \<open>
  \<^verbatim>\<open>sorted(xs, key=k, reverse=True)\<close>: descending, and stable (elements with equal keys keep
  their order). CPython reverses the list, sorts it ascending with its stable sort and
  reverses the result; \<^const>\<open>sort_key\<close> is a stable ascending sort.
\<close>

definition sorted_reverse :: "('a \<Rightarrow> 'k::linorder) \<Rightarrow> 'a list \<Rightarrow> 'a list" where
  "sorted_reverse k xs = rev (sort_key k (rev xs))"

text \<open>
  \<^verbatim>\<open>
  segs = getattr(crops_obj, "segments", None)
  if not segs:
      return None
  segs = sorted(segs, key=lambda s: (getattr(s, "end", 0) - getattr(s, "start", 0)), reverse=True)
  s = segs[0]
  x, y = int(getattr(s, "x", 0)), int(getattr(s, "y", 0))
  w, h = int(getattr(s, "w", 0)), int(getattr(s, "h", 0))
  return (x, y, w, h) if min(w, h) > 0 else None
  \<close>
\<close>

definition segment_box :: "segment \<Rightarrow> crop_box option" where
  "segment_box s =
    (let x = py_int (getattr (seg_x s) 0); y = py_int (getattr (seg_y s) 0);
         w = py_int (getattr (seg_w s) 0); h = py_int (getattr (seg_h s) 0)
     in if min w h > 0 then Some (x, y, w, h) else None)"

text \<open>The segment \<^verbatim>\<open>segs[0]\<close> after the sort.\<close>

definition primary_segment :: "(rat \<Rightarrow> pyfloat) \<Rightarrow> segment list \<Rightarrow> segment option" where
  "primary_segment rnd segs =
    (case sorted_reverse (span rnd) segs of [] \<Rightarrow> None | s # _ \<Rightarrow> Some s)"

definition pick_primary_crop :: "(rat \<Rightarrow> pyfloat) \<Rightarrow> crops \<Rightarrow> crop_box option" where
  "pick_primary_crop rnd crops_obj =
    (let segs = getattr (segments crops_obj) []
     in if segs = [] then None
        else (case primary_segment rnd segs of None \<Rightarrow> None | Some s \<Rightarrow> segment_box s))"

subsection \<open>Path escaping: \<^verbatim>\<open>escape_for_subtitles\<close>\<close>

text \<open>
  \<^verbatim>\<open>
  s = str(path)
  return (s.replace("\\", "\\\\").replace(":", "\\:").replace(",", "\\,").replace("'", "\\'"))
  \<close>
\<close>

definition escape_for_subtitles :: "path \<Rightarrow> string" where
  "escape_for_subtitles p =
    (let s = p;
         s = str_replace [bslash] [bslash, bslash] s;
         s = str_replace '':'' [bslash, CHR '':''] s;
         s = str_replace '','' [bslash, CHR '',''] s;
         s = str_replace [squote] [bslash, squote] s
     in s)"

text \<open>
  Escaping in one pass, as the specification describes its result: each of the four
  special characters gets one backslash in front of it, every other character is kept.
\<close>

definition escape_char :: "char \<Rightarrow> string" where
  "escape_char c =
    (if c = bslash \<or> c = CHR '':'' \<or> c = CHR '','' \<or> c = squote then [bslash, c] else [c])"

definition escape_once :: "string \<Rightarrow> string" where
  "escape_once s = concat (map escape_char s)"

subsection \<open>The filter graph: \<^verbatim>\<open>build_filtergraph\<close>\<close>

definition CAPTION_FONT :: string where
  "CAPTION_FONT = ''DejaVu Sans''"

definition CAPTION_STYLE :: string where
  "CAPTION_STYLE =
     ''FontName='' @ CAPTION_FONT @ '','' @
     ''FontSize=13,'' @
     ''PrimaryColour=&H00FFFFFF&,'' @
     ''BackColour=&H80000000&,'' @
     ''Outline=0,'' @
     ''Shadow=0,'' @
     ''BorderStyle=3,'' @
     ''Alignment=2,'' @
     ''MarginV=120,'' @
     ''Bold=1,'' @
     ''WrapStyle=2''"

text \<open>The strings that \<^verbatim>\<open>build_filtergraph\<close> appends to \<^verbatim>\<open>parts\<close>, one definition each.\<close>

definition background_part :: "int \<Rightarrow> int \<Rightarrow> string" where
  "background_part out_w out_h =
     ''[0:v]'' @
     ''scale='' @ [squote] @ ''if(gte(iw/ih,'' @ str_int out_w @ ''/'' @ str_int out_h @ ''),-1,''
        @ str_int out_w @ '')'' @ [squote] @
     '':'' @ [squote] @ ''if(gte(iw/ih,'' @ str_int out_w @ ''/'' @ str_int out_h @ ''),''
        @ str_int out_h @ '',-1)'' @ [squote] @ '','' @
     ''boxblur=24:1,'' @
     ''crop='' @ str_int out_w @ '':'' @ str_int out_h @ ''[bg]''"

definition crop_part :: "crop_box \<Rightarrow> string" where
  "crop_part crop_box =
    (case crop_box of (x, y, w, h) \<Rightarrow>
      ''[0:v]crop='' @ str_int w @ '':'' @ str_int h @ '':'' @ str_int x @ '':'' @ str_int y
        @ ''[fg]'')"

definition center_crop_part :: string where
  "center_crop_part =
     ''[0:v]'' @
     ''crop='' @
     ''iw*min(1.0'' @ [bslash] @ '',ih/iw*9/16):'' @
     ''ih*min(1.0'' @ [bslash] @ '',iw/ih*16/9):'' @
     ''(iw - iw*min(1.0'' @ [bslash] @ '',ih/iw*9/16))/2:'' @
     ''(ih - ih*min(1.0'' @ [bslash] @ '',iw/ih*16/9))/2[fg]''"

definition scale_part :: "int \<Rightarrow> int \<Rightarrow> string" where
  "scale_part out_w out_h =
     ''[fg]scale='' @ str_int out_w @ '':'' @ str_int out_h
       @ '':force_original_aspect_ratio=decrease[fgs]''"

definition overlay_part :: string where
  "overlay_part = ''[bg][fgs]overlay=(W-w)/2:(H-h)/2[base]''"

definition subtitles_part :: "string \<Rightarrow> path \<Rightarrow> string" where
  "subtitles_part base_label srt_path =
    (let style_escaped = str_replace '','' [bslash, CHR '',''] CAPTION_STYLE;
         srt_escaped = escape_for_subtitles srt_path
     in base_label @ ''subtitles='' @ [squote] @ srt_escaped @ [squote]
          @ '':force_style='' @ [squote] @ style_escaped @ [squote] @ ''[base2]'')"

definition template_part :: "string \<Rightarrow> string" where
  "template_part base_label = base_label @ ''[1:v]overlay=0:0[outv]''"

text \<open>
  The list \<^verbatim>\<open>parts\<close> when \<^verbatim>\<open>build_filtergraph\<close> returns. The test
  \<^verbatim>\<open>crop_box and all(v > 0 for v in crop_box)\<close> holds for a box that is not \<^verbatim>\<open>None\<close> and
  whose four numbers, the origin included, are positive; \<^verbatim>\<open>if srt_path\<close> holds for every
  \<^verbatim>\<open>Path\<close>.
\<close>

definition filtergraph_parts ::
  "crop_box option \<Rightarrow> int \<Rightarrow> int \<Rightarrow> path option \<Rightarrow> string list" where
  "filtergraph_parts crop_box out_w out_h srt_path =
    (let parts = [];
         parts = parts @ [background_part out_w out_h];
         parts =
           (case crop_box of
              Some (x, y, w, h) \<Rightarrow>
                if x > 0 \<and> y > 0 \<and> w > 0 \<and> h > 0 then parts @ [crop_part (x, y, w, h)]
                else parts @ [center_crop_part]
            | None \<Rightarrow> parts @ [center_crop_part]);
         parts = parts @ [scale_part out_w out_h];
         parts = parts @ [overlay_part];
         base_label = ''[base]'';
         (parts, base_label) =
           (case srt_path of
              Some p \<Rightarrow> (parts @ [subtitles_part base_label p], ''[base2]'')
            | None \<Rightarrow> (parts, base_label));
         parts = parts @ [template_part base_label]
     in parts)"

definition build_filtergraph ::
  "crop_box option \<Rightarrow> int \<Rightarrow> int \<Rightarrow> path option \<Rightarrow> string" where
  "build_filtergraph crop_box out_w out_h srt_path =
     join '','' (filtergraph_parts crop_box out_w out_h srt_path)"

subsection \<open>The render command: \<^verbatim>\<open>ff_design\<close> and \<^verbatim>\<open>run\<close>\<close>

definition ff_cmd ::
  "path \<Rightarrow> path \<Rightarrow> path \<Rightarrow> crop_box option \<Rightarrow> int \<Rightarrow> int \<Rightarrow> path option \<Rightarrow> string list" where
  "ff_cmd src dst overlay_png crop_box out_w out_h srt_path =
    (let vf = build_filtergraph crop_box out_w out_h srt_path
     in [''ffmpeg'', ''-y'',
         ''-i'', src,
         ''-i'', overlay_png,
         ''-filter_complex'', vf,
         ''-map'', ''[outv]'',
         ''-map'', ''0:a?'',
         ''-c:v'', ''libx264'', ''-preset'', ''veryfast'', ''-crf'', ''18'',
         ''-c:a'', ''copy'',
         dst])"

subsection \<open>The driver: \<^verbatim>\<open>main\<close>\<close>

text \<open>
  The outside world is a record of answers: whether a path exists, the sorted result of the
  glob, what the detector and the dimension probe return or raise, and whether a command
  exits with status zero. The answers are functions of the arguments of the call: they do
  not change while the batch runs.
\<close>

datatype subs_choice = Off | Auto | File

record args =
  input_dir :: path
  output_dir :: path
  template :: path
  width :: int
  height :: int
  pyannote_token :: string
  crop_expansion :: pyfloat
  disable_smart_crop :: bool
  subs_mode :: subs_choice
  subs_dir :: path
  subs_file :: string

datatype exn = FileNotFoundError path | CalledProcessError "string list"

record env =
  path_exists :: "path \<Rightarrow> bool"
  sorted_glob :: "path \<Rightarrow> path list"
  resize :: "path \<Rightarrow> string \<Rightarrow> string + crops"
  get_video_dimensions :: "path \<Rightarrow> string + int \<times> int"
  exit_ok :: "string list \<Rightarrow> bool"

text \<open>What the program prints, and the files the renders have written.\<close>

datatype message =
    Info_no_clips path
  | Designing string
  | Warn_subs_file_not_found
  | Info_smart_crop_disabled
  | Info_expanded crop_box crop_box pyfloat
  | Info_token_missing
  | Warn_resize_failed string
  | Echo "string list"
  | All_designed

record world =
  printed :: "message list"
  written :: "path list"

definition say :: "message list \<Rightarrow> world \<Rightarrow> world" where
  "say ms st = st\<lparr>printed := printed st @ ms\<rparr>"

text \<open>
  \<^verbatim>\<open>run(cmd)\<close> echoes the command and calls \<^verbatim>\<open>subprocess.run(cmd, check=True)\<close>, which raises
  \<^verbatim>\<open>CalledProcessError\<close> on a non-zero exit status.
\<close>

definition run :: "env \<Rightarrow> string list \<Rightarrow> world \<Rightarrow> (exn + unit) \<times> world" where
  "run env cmd st =
    (let st = say [Echo cmd] st
     in if exit_ok env cmd then (Inr (), st) else (Inl (CalledProcessError cmd), st))"

text \<open>A render that succeeds has written its destination file.\<close>

definition ff_design ::
  "env \<Rightarrow> path \<Rightarrow> path \<Rightarrow> path \<Rightarrow> crop_box option \<Rightarrow> int \<Rightarrow> int \<Rightarrow> path option \<Rightarrow> world
    \<Rightarrow> (exn + unit) \<times> world" where
  "ff_design env src dst overlay_png crop_box out_w out_h srt_path st =
    (case run env (ff_cmd src dst overlay_png crop_box out_w out_h srt_path) st of
       (Inl e, st) \<Rightarrow> (Inl e, st)
     | (Inr u, st) \<Rightarrow> (Inr u, st\<lparr>written := written st @ [dst]\<rparr>))"

text \<open>
  \<^verbatim>\<open>
  srt = None
  if args.subs_mode == "file" and args.subs_file:
      srt = Path(args.subs_file) if Path(args.subs_file).exists() else None
      if srt is None:
          print("[warn] --subs_file not found; skipping subs for this run.")
  elif args.subs_mode == "auto":
      srt1 = clip.with_suffix(".srt")
      srt2 = Path(args.subs_dir) / (clip.stem + ".srt")
      srt = srt1 if srt1.exists() else (srt2 if srt2.exists() else None)
  \<close>
\<close>

definition choose_subtitles :: "env \<Rightarrow> args \<Rightarrow> path \<Rightarrow> path option \<times> message list" where
  "choose_subtitles env args clip =
    (if subs_mode args = File \<and> subs_file args \<noteq> [] then
       (if path_exists env (subs_file args) then (Some (subs_file args), [])
        else (None, [Warn_subs_file_not_found]))
     else if subs_mode args = Auto then
       (let srt1 = with_suffix clip ''.srt'';
            srt2 = joinpath (subs_dir args) (path_stem clip @ ''.srt'')
        in (if path_exists env srt1 then Some srt1
            else if path_exists env srt2 then Some srt2 else None, []))
     else (None, []))"

text \<open>
  \<^verbatim>\<open>
  crop_box = None
  if args.disable_smart_crop:
      print("[info] Smart crop disabled; using center 9:16 crop.")
  else:
      try:
          if args.pyannote_token:
              crops = resize(video_file_path=str(clip), pyannote_auth_token=..., aspect_ratio=(9, 16))
              crop_box = pick_primary_crop(crops) or None
              if crop_box and args.crop_expansion != 1.0:
                  video_w, video_h = get_video_dimensions(clip)
                  original_box = crop_box
                  crop_box = expand_crop_box(crop_box, video_w, video_h, args.crop_expansion)
                  print(f"[info] Expanded crop from {original_box} to {crop_box} ...")
          else:
              print("[info] PYANNOTE token missing; using center 9:16 crop.")
      except Exception as e:
          print(f"[warn] resize() failed; using center crop. Details: {e}")
  \<close>
  An exception of the dimension probe is caught by the same handler, after \<^verbatim>\<open>crop_box\<close> has
  been assigned.
\<close>

definition smart_crop ::
  "(rat \<Rightarrow> pyfloat) \<Rightarrow> env \<Rightarrow> args \<Rightarrow> path \<Rightarrow> crop_box option \<times> message list" where
  "smart_crop rnd env args clip =
    (if disable_smart_crop args then (None, [Info_smart_crop_disabled])
     else if pyannote_token args \<noteq> [] then
       (case resize env clip (pyannote_token args) of
          Inl e \<Rightarrow> (None, [Warn_resize_failed e])
        | Inr crops \<Rightarrow>
           (case pick_primary_crop rnd crops of
              None \<Rightarrow> (None, [])
            | Some original_box \<Rightarrow>
               if crop_expansion args \<noteq> 1 then
                 (case get_video_dimensions env clip of
                    Inl e \<Rightarrow> (Some original_box, [Warn_resize_failed e])
                  | Inr (video_w, video_h) \<Rightarrow>
                     let crop_box =
                       expand_crop_box rnd original_box video_w video_h (crop_expansion args)
                     in (Some crop_box,
                         [Info_expanded original_box crop_box (crop_expansion args)]))
               else (Some original_box, [])))
     else (None, [Info_token_missing]))"

text \<open>\<^verbatim>\<open>dst = out_dir / (clip.stem.replace("_subtitled", "") + "_vertical.mp4")\<close>\<close>

definition destination :: "args \<Rightarrow> path \<Rightarrow> path" where
  "destination args clip =
     joinpath (output_dir args) (str_replace ''_subtitled'' [] (path_stem clip) @ ''_vertical.mp4'')"

text \<open>The command that the loop body runs for a clip.\<close>

definition clip_cmd :: "(rat \<Rightarrow> pyfloat) \<Rightarrow> env \<Rightarrow> args \<Rightarrow> path \<Rightarrow> string list" where
  "clip_cmd rnd env args clip =
     ff_cmd clip (destination args clip) (template args) (fst (smart_crop rnd env args clip))
       (width args) (height args) (fst (choose_subtitles env args clip))"

text \<open>One iteration of \<^verbatim>\<open>for clip in inputs\<close>.\<close>

definition design_clip ::
  "(rat \<Rightarrow> pyfloat) \<Rightarrow> env \<Rightarrow> args \<Rightarrow> path \<Rightarrow> world \<Rightarrow> (exn + unit) \<times> world" where
  "design_clip rnd env args clip st =
    (let st = say [Designing (path_name clip)] st;
         (srt, ms) = choose_subtitles env args clip;
         st = say ms st;
         (crop_box, ms) = smart_crop rnd env args clip;
         st = say ms st;
         dst = destination args clip
     in ff_design env clip dst (template args) crop_box (width args) (height args) srt st)"

text \<open>The loop: an exception of the render leaves the loop at once.\<close>

fun main_loop ::
  "(rat \<Rightarrow> pyfloat) \<Rightarrow> env \<Rightarrow> args \<Rightarrow> path list \<Rightarrow> world \<Rightarrow> (exn + unit) \<times> world" where
  "main_loop rnd env args [] st = (Inr (), st)"
| "main_loop rnd env args (clip # inputs) st =
    (case design_clip rnd env args clip st of
       (Inl e, st) \<Rightarrow> (Inl e, st)
     | (Inr u, st) \<Rightarrow> main_loop rnd env args inputs st)"

definition main :: "(rat \<Rightarrow> pyfloat) \<Rightarrow> env \<Rightarrow> args \<Rightarrow> world \<Rightarrow> (exn + unit) \<times> world" where
  "main rnd env args st =
    (if \<not> path_exists env (template args) then (Inl (FileNotFoundError (template args)), st)
     else
       (case sorted_glob env (input_dir args) of
          [] \<Rightarrow> (Inr (), say [Info_no_clips (input_dir args)] st)
        | clip # inputs \<Rightarrow>
           (case main_loop rnd env args (clip # inputs) st of
              (Inl e, st) \<Rightarrow> (Inl e, st)
            | (Inr u, st) \<Rightarrow> (Inr u, say [All_designed] st))))"

text \<open>What one iteration prints: the lines of the loop body, then the echo of \<^verbatim>\<open>run\<close>.\<close>

definition clip_messages :: "(rat \<Rightarrow> pyfloat) \<Rightarrow> env \<Rightarrow> args \<Rightarrow> path \<Rightarrow> message list" where
  "clip_messages rnd env args clip =
     [Designing (path_name clip)] @ snd (choose_subtitles env args clip)
       @ snd (smart_crop rnd env args clip) @ [Echo (clip_cmd rnd env args clip)]"

subsection \<open>Example batches\<close>

text \<open>
  Three clips; the detector raises for the second one and finds one region in the others;
  a subtitle file lies next to the first clip and in the subtitle directory.
\<close>

definition example_segment :: segment where
  "example_segment =
     \<lparr>seg_start = Some 0, seg_end = Some 2, seg_x = Some 100, seg_y = Some 50,
      seg_w = Some 100, seg_h = Some 100\<rparr>"

definition example_resize :: "path \<Rightarrow> string \<Rightarrow> string + crops" where
  "example_resize clip token =
     (if clip = ''in/clip_2.mp4'' then Inl ''no speaker found''
      else Inr \<lparr>segments = Some [example_segment]\<rparr>)"

definition example_exists :: "path \<Rightarrow> bool" where
  "example_exists p = (p \<in> set [''t.png'', ''in/clip_1.srt'', ''subs/clip_1.srt''])"

definition example_glob :: "path \<Rightarrow> path list" where
  "example_glob d = [''in/clip_1.mp4'', ''in/clip_2.mp4'', ''in/clip_3.mp4'']"

definition example_probe :: "path \<Rightarrow> string + int \<times> int" where
  "example_probe clip = Inr (640, 360)"

definition always_ok :: "string list \<Rightarrow> bool" where
  "always_ok cmd = True"

text \<open>A rendering engine that fails on the second clip (the source is argument 3).\<close>

definition fails_on_clip_2 :: "string list \<Rightarrow> bool" where
  "fails_on_clip_2 cmd = (cmd ! 3 \<noteq> ''in/clip_2.mp4'')"

definition example_env :: env where
  "example_env =
     \<lparr>path_exists = example_exists, sorted_glob = example_glob, resize = example_resize,
      get_video_dimensions = example_probe, exit_ok = always_ok\<rparr>"

definition failing_env :: env where
  "failing_env =
     \<lparr>path_exists = example_exists, sorted_glob = example_glob, resize = example_resize,
      get_video_dimensions = example_probe, exit_ok = fails_on_clip_2\<rparr>"

definition example_args :: args where
  "example_args =
     \<lparr>input_dir = ''in'', output_dir = ''out'', template = ''t.png'', width = 1080,
      height = 1920, pyannote_token = ''token'', crop_expansion = 3 / 2,
      disable_smart_crop = False, subs_mode = Auto, subs_dir = ''subs'', subs_file = []\<rparr>"

definition empty_world :: world where
  "empty_world = \<lparr>printed = [], written = []\<rparr>"

text \<open>Two regions of equal time span; the one listed first starts later.\<close>

definition late_segment :: segment where
  "late_segment =
     \<lparr>seg_start = Some 5, seg_end = Some 6, seg_x = Some 1, seg_y = Some 1,
      seg_w = Some 10, seg_h = Some 10\<rparr>"

definition early_segment :: segment where
  "early_segment =
     \<lparr>seg_start = Some 0, seg_end = Some 1, seg_x = Some 2, seg_y = Some 2,
      seg_w = Some 20, seg_h = Some 20\<rparr>"

definition flat_segment :: segment where
  "flat_segment =
     \<lparr>seg_start = Some 0, seg_end = Some 4, seg_x = Some 3, seg_y = Some 3,
      seg_w = Some 0, seg_h = Some 30\<rparr>"

text \<open>A detector whose longest region has no width.\<close>

definition flat_resize :: "path \<Rightarrow> string \<Rightarrow> string + crops" where
  "flat_resize clip token = Inr \<lparr>segments = Some [late_segment, flat_segment]\<rparr>"

definition flat_env :: env where
  "flat_env =
     \<lparr>path_exists = example_exists, sorted_glob = example_glob, resize = flat_resize,
      get_video_dimensions = example_probe, exit_ok = always_ok\<rparr>"

section \<open>Geometry\<close>

subsection \<open>Truncation and rounding\<close>

lemma py_int_nonneg: "0 \<le> r \<Longrightarrow> py_int r = \<lfloor>r\<rfloor>"
  by (simp add: py_int_def)

lemma py_int_of_int: "py_int (of_int n) = n"
  by (simp add: py_int_def)

text \<open>Truncation and \<open>floor\<close> differ on negative non-integers.\<close>

lemma py_int_is_not_floor: "py_int (- 1 / 2) = 0 \<and> \<lfloor>- 1 / 2 :: rat\<rfloor> = - 1"
  by code_simp

text \<open>After the clamp to \<open>max(0, .)\<close> the difference is gone.\<close>

lemma max0_py_int: "max 0 (py_int r) = max 0 \<lfloor>r\<rfloor>"
proof (cases "0 \<le> r")
  case True
  then show ?thesis by (simp add: py_int_def)
next
  case False
  then have "r < 0" by simp
  then have "\<lceil>r\<rceil> \<le> 0" and "\<lfloor>r\<rfloor> \<le> 0"
    by (simp_all add: ceiling_le_iff floor_le_iff)
  with False show ?thesis by (simp add: py_int_def)
qed

lemma py_int_mono:
  assumes "a \<le> b"
  shows "py_int a \<le> py_int b"
proof (cases "0 \<le> a")
  case True
  with assms have b: "0 \<le> b" by simp
  have "\<lfloor>a\<rfloor> \<le> \<lfloor>b\<rfloor>" using assms by (rule floor_mono)
  with True b show ?thesis by (simp only: py_int_def if_True)
next
  case False
  then have neg: "\<lceil>a\<rceil> \<le> 0" by (simp add: ceiling_le_iff)
  show ?thesis
  proof (cases "0 \<le> b")
    case True
    then have "0 \<le> \<lfloor>b\<rfloor>" by simp
    with neg have "\<lceil>a\<rceil> \<le> \<lfloor>b\<rfloor>" by linarith
    with False True show ?thesis by (simp only: py_int_def if_True if_False)
  next
    case nb: False
    have "\<lceil>a\<rceil> \<le> \<lceil>b\<rceil>" using assms by (rule ceiling_mono)
    with False nb show ?thesis by (simp only: py_int_def if_False)
  qed
qed

lemma rnd_nonneg: "mono rnd \<Longrightarrow> rnd 0 = 0 \<Longrightarrow> 0 \<le> r \<Longrightarrow> 0 \<le> rnd r"
  by (metis monoD)

lemma exact_uptoD: "exact_upto B rnd \<Longrightarrow> \<bar>n\<bar> \<le> B \<Longrightarrow> rnd (of_int n) = of_int n"
  by (simp add: exact_upto_def)

lemma mono_id_rat: "mono (id :: rat \<Rightarrow> rat)"
  by (simp add: mono_def)

lemma exact_upto_id: "exact_upto B id"
  by (simp add: exact_upto_def)

subsection \<open>C1: the code computes the specification's single-pass algorithm\<close>

lemma scaled_extent_floor:
  assumes "mono rnd" and "rnd 0 = 0" and "0 \<le> w" and "0 < factor"
  shows "py_int (rnd (rnd (of_int w) * factor)) = \<lfloor>rnd (rnd (of_int w) * factor)\<rfloor>"
proof -
  have "0 \<le> (of_int w :: rat)" using assms(3) by simp
  with assms(1,2) have "0 \<le> rnd (of_int w)" by (rule rnd_nonneg)
  then have "0 \<le> rnd (of_int w) * factor" using assms(4) by simp
  with assms(1,2) have "0 \<le> rnd (rnd (of_int w) * factor)" by (rule rnd_nonneg)
  then show ?thesis by (rule py_int_nonneg)
qed

lemma boundary_example:
  assumes e: "exact_upto 300 rnd"
  shows "expand_crop_box rnd (0, 0, 100, 100) 150 150 3 = (0, 0, 150, 150)"
proof -
  have r: "rnd 0 = 0" "rnd 100 = 100" "rnd 50 = 50" "rnd 300 = 300" "rnd 150 = 150"
    "rnd (- 100) = - 100"
    using exact_uptoD[OF e, of 0] exact_uptoD[OF e, of 100] exact_uptoD[OF e, of 50]
      exact_uptoD[OF e, of 300] exact_uptoD[OF e, of 150] exact_uptoD[OF e, of "- 100"]
    by simp_all
  have c: "rnd (rnd (of_int 0) + rnd (of_int 100 / 2)) = 50" by (simp add: r)
  have n: "py_int (rnd (rnd (of_int 100) * 3)) = 300"
    using py_int_of_int[of 300] by (simp add: r)
  have o: "py_int (rnd (50 - rnd (of_int 300 / 2))) = - 100"
    using py_int_of_int[of "- 100"] by (simp add: r)
  show ?thesis
    unfolding expand_crop_box_def prod.case Let_def c n o by simp
qed

text \<open>
  C1. For every rectangle that satisfies the Rectangle invariant within the frame and every
  positive factor, \<^verbatim>\<open>expand_crop_box\<close> returns the result of the specification's
  single-pass algorithm (centroid, extents by \<open>floor\<close>, origin by \<open>floor\<close>, origin clamped
  first, then extents clamped), for every rounding function that is monotone and keeps
  \<open>0\<close>; and the rectangle \<open>(0, 0, 100, 100)\<close> in a \<open>150 \<times> 150\<close> frame with factor \<open>3.0\<close>
  becomes \<open>(0, 0, 150, 150)\<close> whenever the integers up to \<open>300\<close> are represented exactly.
\<close>

theorem expand_crop_box_is_spec_algorithm:
  assumes "mono rnd" and "rnd 0 = 0"
    and "rectangle_invariant (x, y, w, h) frame_w frame_h" and "0 < factor"
  shows "expand_crop_box rnd (x, y, w, h) frame_w frame_h factor
           = spec_expand rnd (x, y, w, h) frame_w frame_h factor
         \<and> (exact_upto 300 rnd \<longrightarrow>
              expand_crop_box rnd (0, 0, 100, 100) 150 150 3 = (0, 0, 150, 150))"
proof -
  from assms(3) have w: "0 \<le> w" and h: "0 \<le> h"
    by (simp_all add: rectangle_invariant_def)
  have W: "py_int (rnd (rnd (of_int w) * factor)) = \<lfloor>rnd (rnd (of_int w) * factor)\<rfloor>"
    using assms(1,2) w assms(4) by (rule scaled_extent_floor)
  have H: "py_int (rnd (rnd (of_int h) * factor)) = \<lfloor>rnd (rnd (of_int h) * factor)\<rfloor>"
    using assms(1,2) h assms(4) by (rule scaled_extent_floor)
  have "expand_crop_box rnd (x, y, w, h) frame_w frame_h factor
          = spec_expand rnd (x, y, w, h) frame_w frame_h factor"
    by (simp add: expand_crop_box_def spec_expand_def Let_def W H max0_py_int)
  then show ?thesis using boundary_example by blast
qed

theorem expand_crop_box_is_spec_algorithm_witness:
  "mono (id :: rat \<Rightarrow> rat) \<and> (id :: rat \<Rightarrow> rat) 0 = 0
   \<and> rectangle_invariant (0, 0, 100, 100) 150 150 \<and> (0 :: rat) < 3
   \<and> exact_upto 300 id
   \<and> expand_crop_box id (0, 0, 100, 100) 150 150 3 = spec_expand id (0, 0, 100, 100) 150 150 3
   \<and> expand_crop_box id (0, 0, 100, 100) 150 150 3 = (0, 0, 150, 150)"
proof -
  have z: "(id :: rat \<Rightarrow> rat) 0 = 0" by simp
  have r: "rectangle_invariant (0, 0, 100, 100) 150 150"
    by (simp add: rectangle_invariant_def)
  have p: "(0 :: rat) < 3" by simp
  from expand_crop_box_is_spec_algorithm[OF mono_id_rat z r p] exact_upto_id[of 300]
    mono_id_rat z r p
  show ?thesis by blast
qed

subsection \<open>C7: a larger factor never gives a smaller area, and the result stays in the frame\<close>

lemma clamped_extent_mono:
  assumes "mono rnd" and "W1 \<le> W2"
  shows "min W1 (fw - max 0 (py_int (rnd (c - rnd (of_int W1 / 2)))))
       \<le> min W2 (fw - max 0 (py_int (rnd (c - rnd (of_int W2 / 2)))))"
proof -
  have "(of_int W1 :: rat) / 2 \<le> of_int W2 / 2" using assms(2) by simp
  then have "rnd (of_int W1 / 2) \<le> rnd (of_int W2 / 2)"
    using assms(1) by (rule monoD[rotated])
  then have "c - rnd (of_int W2 / 2) \<le> c - rnd (of_int W1 / 2)" by simp
  then have "rnd (c - rnd (of_int W2 / 2)) \<le> rnd (c - rnd (of_int W1 / 2))"
    using assms(1) by (rule monoD[rotated])
  then have "py_int (rnd (c - rnd (of_int W2 / 2))) \<le> py_int (rnd (c - rnd (of_int W1 / 2)))"
    by (rule py_int_mono)
  with assms(2) show ?thesis by linarith
qed

lemma scaled_extent_mono:
  assumes "mono rnd" and "0 \<le> rnd (of_int w)" and "f1 \<le> f2"
  shows "py_int (rnd (rnd (of_int w) * f1)) \<le> py_int (rnd (rnd (of_int w) * f2))"
proof -
  have "rnd (of_int w) * f1 \<le> rnd (of_int w) * f2"
    using assms(2,3) by (rule mult_left_mono[rotated])
  then have "rnd (rnd (of_int w) * f1) \<le> rnd (rnd (of_int w) * f2)"
    using assms(1) by (rule monoD[rotated])
  then show ?thesis by (rule py_int_mono)
qed

lemma scaled_extent_ge:
  assumes "mono rnd" and "rnd (of_int w) = of_int w" and "0 \<le> w" and "1 \<le> f"
  shows "w \<le> py_int (rnd (rnd (of_int w) * f))"
proof -
  have "(of_int w :: rat) * 1 \<le> of_int w * f"
    using assms(3,4) by (intro mult_left_mono) simp_all
  then have "(of_int w :: rat) \<le> rnd (of_int w) * f" using assms(2) by simp
  then have "rnd (of_int w) \<le> rnd (rnd (of_int w) * f)"
    using assms(1) by (rule monoD[rotated])
  then have "py_int (rnd (of_int w)) \<le> py_int (rnd (rnd (of_int w) * f))"
    by (rule py_int_mono)
  then show ?thesis using assms(2) by (simp add: py_int_of_int)
qed

lemma clamped_origin_le_frame:
  assumes m: "mono rnd" and e: "exact_upto B rnd" and B: "fw \<le> B"
    and x: "0 \<le> x" and w: "0 \<le> w" and xw: "x + w \<le> fw" and W: "0 \<le> W"
  shows "max 0 (py_int (rnd (rnd (rnd (of_int x) + rnd (of_int w / 2)) - rnd (of_int W / 2))))
           \<le> fw"
proof -
  have r0: "rnd 0 = 0" using exact_uptoD[OF e, of 0] x w xw B by simp
  have rx: "rnd (of_int x) = of_int x" using x w xw B by (intro exact_uptoD[OF e]) simp
  have rw: "rnd (of_int w) = of_int w" using x w xw B by (intro exact_uptoD[OF e]) simp
  have rf: "rnd (of_int fw) = of_int fw" using x w xw B by (intro exact_uptoD[OF e]) simp
  have "(of_int w :: rat) / 2 \<le> of_int w" using w by simp
  then have "rnd (of_int w / 2) \<le> rnd (of_int w)" using m by (rule monoD[rotated])
  then have "rnd (of_int x) + rnd (of_int w / 2) \<le> of_int x + of_int w"
    using rx rw by simp
  also have "\<dots> = of_int (x + w)" by simp
  also have "\<dots> \<le> of_int fw" using xw by (simp only: of_int_le_iff)
  finally have "rnd (of_int x) + rnd (of_int w / 2) \<le> of_int fw" .
  then have c: "rnd (rnd (of_int x) + rnd (of_int w / 2)) \<le> of_int fw"
    using monoD[OF m, of "rnd (of_int x) + rnd (of_int w / 2)" "of_int fw"] rf by simp
  have "0 \<le> (of_int W :: rat) / 2" using W by simp
  with m r0 have "0 \<le> rnd (of_int W / 2)" by (rule rnd_nonneg)
  with c have "rnd (rnd (of_int x) + rnd (of_int w / 2)) - rnd (of_int W / 2) \<le> of_int fw"
    by simp
  then have "rnd (rnd (rnd (of_int x) + rnd (of_int w / 2)) - rnd (of_int W / 2)) \<le> of_int fw"
    using monoD[OF m, of _ "of_int fw"] rf by simp
  then have "py_int (rnd (rnd (rnd (of_int x) + rnd (of_int w / 2)) - rnd (of_int W / 2)))
               \<le> py_int (of_int fw)"
    by (rule py_int_mono)
  moreover have "0 \<le> fw" using x w xw by simp
  ultimately show ?thesis by (simp add: py_int_of_int)
qed

text \<open>
  C7. For every rectangle valid within the frame \<open>(fw, fh)\<close> and factors
  \<open>factor2 > factor1 \<ge> 1\<close>, the area of the expansion at \<open>factor2\<close> is at least the area at
  \<open>factor1\<close>, and both results lie within \<open>[0, fw] \<times> [0, fh]\<close>; for every rounding function
  that is monotone and exact on the integers up to the frame size.
\<close>

theorem expand_area_monotone:
  assumes m: "mono rnd" and e: "exact_upto (max fw fh) rnd"
    and inv: "rectangle_invariant (x, y, w, h) fw fh"
    and f: "1 \<le> factor1" "factor1 < factor2"
  shows "area (expand_crop_box rnd (x, y, w, h) fw fh factor1)
           \<le> area (expand_crop_box rnd (x, y, w, h) fw fh factor2)
       \<and> within_frame (expand_crop_box rnd (x, y, w, h) fw fh factor1) fw fh
       \<and> within_frame (expand_crop_box rnd (x, y, w, h) fw fh factor2) fw fh"
proof -
  from inv have x: "0 \<le> x" and y: "0 \<le> y" and w: "0 \<le> w" and h: "0 \<le> h"
    and xw: "x + w \<le> fw" and yh: "y + h \<le> fh"
    by (simp_all add: rectangle_invariant_def)
  have rw: "rnd (of_int w) = of_int w" using x w xw by (intro exact_uptoD[OF e]) simp
  have rh: "rnd (of_int h) = of_int h" using y h yh by (intro exact_uptoD[OF e]) simp
  define cx where "cx = rnd (rnd (of_int x) + rnd (of_int w / 2))"
  define cy where "cy = rnd (rnd (of_int y) + rnd (of_int h / 2))"
  define W where "W = (\<lambda>fa. py_int (rnd (rnd (of_int w) * fa)))"
  define H where "H = (\<lambda>fa. py_int (rnd (rnd (of_int h) * fa)))"
  define X where "X = (\<lambda>fa. max 0 (py_int (rnd (cx - rnd (of_int (W fa) / 2)))))"
  define Y where "Y = (\<lambda>fa. max 0 (py_int (rnd (cy - rnd (of_int (H fa) / 2)))))"
  define W' where "W' = (\<lambda>fa. min (W fa) (fw - X fa))"
  define H' where "H' = (\<lambda>fa. min (H fa) (fh - Y fa))"
  have ex: "expand_crop_box rnd (x, y, w, h) fw fh fa = (X fa, Y fa, W' fa, H' fa)" for fa
    by (simp add: expand_crop_box_def Let_def W'_def H'_def X_def Y_def W_def H_def
        cx_def cy_def)
  have f2: "1 \<le> factor2" using f by simp
  have W1: "w \<le> W factor1" unfolding W_def using m rw w f(1) by (rule scaled_extent_ge)
  have W2: "w \<le> W factor2" unfolding W_def using m rw w f2 by (rule scaled_extent_ge)
  have H1: "h \<le> H factor1" unfolding H_def using m rh h f(1) by (rule scaled_extent_ge)
  have H2: "h \<le> H factor2" unfolding H_def using m rh h f2 by (rule scaled_extent_ge)
  have W12: "W factor1 \<le> W factor2" unfolding W_def
    using m _ less_imp_le[OF f(2)] by (rule scaled_extent_mono) (simp add: rw w)
  have H12: "H factor1 \<le> H factor2" unfolding H_def
    using m _ less_imp_le[OF f(2)] by (rule scaled_extent_mono) (simp add: rh h)
  have W'12: "W' factor1 \<le> W' factor2" unfolding W'_def X_def
    using m W12 by (rule clamped_extent_mono)
  have H'12: "H' factor1 \<le> H' factor2" unfolding H'_def Y_def
    using m H12 by (rule clamped_extent_mono)
  have Xle: "X fa \<le> fw" if "0 \<le> W fa" for fa unfolding X_def cx_def
    using m e _ x w xw that by (rule clamped_origin_le_frame) simp
  have Yle: "Y fa \<le> fh" if "0 \<le> H fa" for fa unfolding Y_def cy_def
    using m e _ y h yh that by (rule clamped_origin_le_frame) simp
  have W'0: "0 \<le> W' factor1" "0 \<le> W' factor2"
    using Xle[of factor1] Xle[of factor2] W1 W2 w by (simp_all add: W'_def)
  have H'0: "0 \<le> H' factor1" "0 \<le> H' factor2"
    using Yle[of factor1] Yle[of factor2] H1 H2 h by (simp_all add: H'_def)
  have X0: "0 \<le> X fa" for fa by (simp add: X_def)
  have Y0: "0 \<le> Y fa" for fa by (simp add: Y_def)
  have inW: "X fa + W' fa \<le> fw" for fa by (simp add: W'_def)
  have inH: "Y fa + H' fa \<le> fh" for fa by (simp add: H'_def)
  have "W' factor1 * H' factor1 \<le> W' factor2 * H' factor2"
    using W'12 H'12 W'0 H'0 by (intro mult_mono) simp_all
  then show ?thesis
    using W'0 H'0 X0 Y0 inW inH by (simp add: ex area_def within_frame_def)
qed

theorem expand_area_monotone_witness:
  "mono (id :: rat \<Rightarrow> rat) \<and> exact_upto (max 200 200) id
   \<and> rectangle_invariant (40, 30, 60, 80) 200 200 \<and> (1 :: rat) \<le> 3 / 2 \<and> (3 / 2 :: rat) < 5 / 2
   \<and> area (expand_crop_box id (40, 30, 60, 80) 200 200 (3 / 2))
        \<le> area (expand_crop_box id (40, 30, 60, 80) 200 200 (5 / 2))
   \<and> within_frame (expand_crop_box id (40, 30, 60, 80) 200 200 (3 / 2)) 200 200
   \<and> within_frame (expand_crop_box id (40, 30, 60, 80) 200 200 (5 / 2)) 200 200
   \<and> expand_crop_box id (40, 30, 60, 80) 200 200 (3 / 2) = (25, 10, 90, 120)
   \<and> expand_crop_box id (40, 30, 60, 80) 200 200 (5 / 2) = (0, 0, 150, 200)"
proof -
  have r: "rectangle_invariant (40, 30, 60, 80) 200 200"
    by (simp add: rectangle_invariant_def)
  have a: "(1 :: rat) \<le> 3 / 2" and b: "(3 / 2 :: rat) < 5 / 2" by simp_all
  have v1: "expand_crop_box id (40, 30, 60, 80) 200 200 (3 / 2) = (25, 10, 90, 120)"
    by code_simp
  have v2: "expand_crop_box id (40, 30, 60, 80) 200 200 (5 / 2) = (0, 0, 150, 200)"
    by code_simp
  from expand_area_monotone[OF mono_id_rat exact_upto_id r a b] mono_id_rat
    exact_upto_id[of "max 200 200"] r a b v1 v2
  show ?thesis by blast
qed

section \<open>The filter graph\<close>

subsection \<open>C3: escaping\<close>

text \<open>Replacing a one-character pattern is a substitution character by character.\<close>

lemma replace_from_single:
  "replace_from [c] new s = concat (map (\<lambda>d. if d = c then new else [d]) s)"
  by (induction s) auto

lemma str_replace_single:
  "str_replace [c] new s = concat (map (\<lambda>d. if d = c then new else [d]) s)"
  by (simp add: str_replace_def replace_from_single)

lemma escape_for_subtitles_Nil: "escape_for_subtitles [] = []"
  by (simp add: escape_for_subtitles_def str_replace_single)

lemma escape_for_subtitles_Cons:
  "escape_for_subtitles (c # s) = escape_char c @ escape_for_subtitles s"
  by (simp add: escape_for_subtitles_def str_replace_single escape_char_def)

lemma escape_for_subtitles_once: "escape_for_subtitles s = escape_once s"
  by (induction s)
    (simp_all add: escape_for_subtitles_Nil escape_for_subtitles_Cons escape_once_def)

lemma style_escaped:
  "str_replace '','' [bslash, CHR '',''] CAPTION_STYLE =
     ''FontName=DejaVu Sans'' @ [bslash] @ '',FontSize=13'' @ [bslash] @
     '',PrimaryColour=&H00FFFFFF&'' @ [bslash] @ '',BackColour=&H80000000&'' @ [bslash] @
     '',Outline=0'' @ [bslash] @ '',Shadow=0'' @ [bslash] @ '',BorderStyle=3'' @ [bslash] @
     '',Alignment=2'' @ [bslash] @ '',MarginV=120'' @ [bslash] @ '',Bold=1'' @ [bslash] @
     '',WrapStyle=2''"
  by (simp add: str_replace_single CAPTION_STYLE_def CAPTION_FONT_def)

text \<open>
  C3. \<^verbatim>\<open>escape_for_subtitles\<close> replaces the backslash first and then the colon, the comma
  and the single quote. Its result is the one-pass escaping of the path: each special
  character of the path gets exactly one backslash, and no backslash that a substitution
  has introduced is escaped again. A path with a colon, a comma, a single quote and a
  backslash shows it. The caption stage passes the style with each of its commas escaped
  as the \<^verbatim>\<open>force_style\<close> parameter.
\<close>

theorem escape_for_subtitles_no_double_escaping:
  "escape_for_subtitles p = escape_once p
   \<and> escape_for_subtitles (''a:b,c'' @ [squote] @ ''d'' @ [bslash] @ ''e.srt'')
       = ''a'' @ [bslash] @ '':b'' @ [bslash] @ '',c'' @ [bslash, squote] @ ''d''
           @ [bslash, bslash] @ ''e.srt''
   \<and> subtitles_part base_label p =
       base_label @ ''subtitles='' @ [squote] @ escape_once p @ [squote] @ '':force_style=''
         @ [squote] @
         (''FontName=DejaVu Sans'' @ [bslash] @ '',FontSize=13'' @ [bslash] @
          '',PrimaryColour=&H00FFFFFF&'' @ [bslash] @ '',BackColour=&H80000000&'' @ [bslash] @
          '',Outline=0'' @ [bslash] @ '',Shadow=0'' @ [bslash] @ '',BorderStyle=3'' @ [bslash] @
          '',Alignment=2'' @ [bslash] @ '',MarginV=120'' @ [bslash] @ '',Bold=1'' @ [bslash] @
          '',WrapStyle=2'')
         @ [squote] @ ''[base2]''"
proof (intro conjI)
  show "escape_for_subtitles p = escape_once p" by (rule escape_for_subtitles_once)
  show "escape_for_subtitles (''a:b,c'' @ [squote] @ ''d'' @ [bslash] @ ''e.srt'')
       = ''a'' @ [bslash] @ '':b'' @ [bslash] @ '',c'' @ [bslash, squote] @ ''d''
           @ [bslash, bslash] @ ''e.srt''"
    by (simp add: escape_for_subtitles_once escape_once_def escape_char_def)
  show "subtitles_part base_label p =
       base_label @ ''subtitles='' @ [squote] @ escape_once p @ [squote] @ '':force_style=''
         @ [squote] @
         (''FontName=DejaVu Sans'' @ [bslash] @ '',FontSize=13'' @ [bslash] @
          '',PrimaryColour=&H00FFFFFF&'' @ [bslash] @ '',BackColour=&H80000000&'' @ [bslash] @
          '',Outline=0'' @ [bslash] @ '',Shadow=0'' @ [bslash] @ '',BorderStyle=3'' @ [bslash] @
          '',Alignment=2'' @ [bslash] @ '',MarginV=120'' @ [bslash] @ '',Bold=1'' @ [bslash] @
          '',WrapStyle=2'')
         @ [squote] @ ''[base2]''"
    unfolding subtitles_part_def Let_def style_escaped escape_for_subtitles_once by simp
qed

subsection \<open>C4: the order of the stages\<close>

lemma str_int_1080: "str_int 1080 = ''1080''"
  by (simp add: str_int_def str_nat.simps)

lemma str_int_1920: "str_int 1920 = ''1920''"
  by (simp add: str_int_def str_nat.simps)

lemma filtergraph_parts_list:
  "filtergraph_parts crop_box out_w out_h srt_path =
     [background_part out_w out_h,
      (case crop_box of
         Some (x, y, w, h) \<Rightarrow>
           if 0 < x \<and> 0 < y \<and> 0 < w \<and> 0 < h then crop_part (x, y, w, h) else center_crop_part
       | None \<Rightarrow> center_crop_part),
      scale_part out_w out_h, overlay_part]
     @ (case srt_path of
          None \<Rightarrow> [template_part ''[base]'']
        | Some p \<Rightarrow> [subtitles_part ''[base]'' p, template_part ''[base2]''])"
  by (simp add: filtergraph_parts_def Let_def split: option.split prod.split)

lemma subtitles_part_text:
  "subtitles_part ''[base]'' p =
     ''[base]subtitles='' @ [squote] @ escape_for_subtitles p @ [squote] @ '':force_style=''
       @ [squote] @
       (''FontName=DejaVu Sans'' @ [bslash] @ '',FontSize=13'' @ [bslash] @
        '',PrimaryColour=&H00FFFFFF&'' @ [bslash] @ '',BackColour=&H80000000&'' @ [bslash] @
        '',Outline=0'' @ [bslash] @ '',Shadow=0'' @ [bslash] @ '',BorderStyle=3'' @ [bslash] @
        '',Alignment=2'' @ [bslash] @ '',MarginV=120'' @ [bslash] @ '',Bold=1'' @ [bslash] @
        '',WrapStyle=2'')
       @ [squote] @ ''[base2]''"
  unfolding subtitles_part_def Let_def style_escaped by simp

text \<open>
  C4. For every crop, canvas size and subtitle path, the string that \<^verbatim>\<open>build_filtergraph\<close>
  returns is, joined by commas and in this order: the background stage, the foreground
  stage, the composite stage (the scaling of the foreground and its overlay on the
  background, two entries of \<^verbatim>\<open>parts\<close>) and then, without a subtitle, the template overlay
  reading \<^verbatim>\<open>[base]\<close> and no caption stage; with a subtitle path, exactly one caption stage
  reading \<^verbatim>\<open>[base]\<close> and writing \<^verbatim>\<open>[base2]\<close>, followed by the template overlay reading
  \<^verbatim>\<open>[base2]\<close>. Every stage is given by its text. The list of stages has five entries
  without a subtitle and six with one; the first four are the same, the caption stage is
  entry 4 and the template overlay is the last entry. The graph for no crop and no subtitle
  on the \<open>1080 \<times> 1920\<close> canvas is written out.
\<close>

theorem build_filtergraph_stage_order:
  "build_filtergraph crop_box out_w out_h srt_path =
     (''[0:v]scale='' @ [squote] @ ''if(gte(iw/ih,'' @ str_int out_w @ ''/'' @ str_int out_h
        @ ''),-1,'' @ str_int out_w @ '')'' @ [squote] @ '':'' @ [squote] @ ''if(gte(iw/ih,''
        @ str_int out_w @ ''/'' @ str_int out_h @ ''),'' @ str_int out_h @ '',-1)'' @ [squote]
        @ '',boxblur=24:1,crop='' @ str_int out_w @ '':'' @ str_int out_h @ ''[bg]'')
     @ '','' @
     (case crop_box of
        Some (x, y, w, h) \<Rightarrow>
          if 0 < x \<and> 0 < y \<and> 0 < w \<and> 0 < h
          then ''[0:v]crop='' @ str_int w @ '':'' @ str_int h @ '':'' @ str_int x @ '':''
                 @ str_int y @ ''[fg]''
          else ''[0:v]crop=iw*min(1.0'' @ [bslash] @ '',ih/iw*9/16):ih*min(1.0'' @ [bslash]
                 @ '',iw/ih*16/9):(iw - iw*min(1.0'' @ [bslash] @ '',ih/iw*9/16))/2:(ih - ih*min(1.0''
                 @ [bslash] @ '',iw/ih*16/9))/2[fg]''
      | None \<Rightarrow>
          ''[0:v]crop=iw*min(1.0'' @ [bslash] @ '',ih/iw*9/16):ih*min(1.0'' @ [bslash]
            @ '',iw/ih*16/9):(iw - iw*min(1.0'' @ [bslash] @ '',ih/iw*9/16))/2:(ih - ih*min(1.0''
            @ [bslash] @ '',iw/ih*16/9))/2[fg]'')
     @ '','' @
     (''[fg]scale='' @ str_int out_w @ '':'' @ str_int out_h
        @ '':force_original_aspect_ratio=decrease[fgs]'')
     @ '','' @
     ''[bg][fgs]overlay=(W-w)/2:(H-h)/2[base]''
     @ '','' @
     (case srt_path of
        None \<Rightarrow> ''[base][1:v]overlay=0:0[outv]''
      | Some p \<Rightarrow>
          (''[base]subtitles='' @ [squote] @ escape_for_subtitles p @ [squote]
             @ '':force_style='' @ [squote] @
             (''FontName=DejaVu Sans'' @ [bslash] @ '',FontSize=13'' @ [bslash] @
              '',PrimaryColour=&H00FFFFFF&'' @ [bslash] @ '',BackColour=&H80000000&''
              @ [bslash] @ '',Outline=0'' @ [bslash] @ '',Shadow=0'' @ [bslash] @
              '',BorderStyle=3'' @ [bslash] @ '',Alignment=2'' @ [bslash] @ '',MarginV=120''
              @ [bslash] @ '',Bold=1'' @ [bslash] @ '',WrapStyle=2'')
             @ [squote] @ ''[base2]'')
          @ '','' @
          ''[base2][1:v]overlay=0:0[outv]'')
   \<and> build_filtergraph crop_box out_w out_h srt_path
       = join '','' (filtergraph_parts crop_box out_w out_h srt_path)
   \<and> length (filtergraph_parts crop_box out_w out_h None) = 5
   \<and> length (filtergraph_parts crop_box out_w out_h (Some srt)) = 6
   \<and> take 4 (filtergraph_parts crop_box out_w out_h (Some srt))
       = take 4 (filtergraph_parts crop_box out_w out_h None)
   \<and> filtergraph_parts crop_box out_w out_h None ! 4 = ''[base][1:v]overlay=0:0[outv]''
   \<and> filtergraph_parts crop_box out_w out_h (Some srt) ! 4
       = ''[base]subtitles='' @ [squote] @ escape_for_subtitles srt @ [squote]
           @ '':force_style='' @ [squote] @
           (''FontName=DejaVu Sans'' @ [bslash] @ '',FontSize=13'' @ [bslash] @
            '',PrimaryColour=&H00FFFFFF&'' @ [bslash] @ '',BackColour=&H80000000&''
            @ [bslash] @ '',Outline=0'' @ [bslash] @ '',Shadow=0'' @ [bslash] @
            '',BorderStyle=3'' @ [bslash] @ '',Alignment=2'' @ [bslash] @ '',MarginV=120''
            @ [bslash] @ '',Bold=1'' @ [bslash] @ '',WrapStyle=2'')
           @ [squote] @ ''[base2]''
   \<and> filtergraph_parts crop_box out_w out_h (Some srt) ! 5 = ''[base2][1:v]overlay=0:0[outv]''
   \<and> build_filtergraph None 1080 1920 None =
       ''[0:v]scale='' @ [squote] @ ''if(gte(iw/ih,1080/1920),-1,1080)'' @ [squote] @ '':''
         @ [squote] @ ''if(gte(iw/ih,1080/1920),1920,-1)'' @ [squote]
         @ '',boxblur=24:1,crop=1080:1920[bg],[0:v]crop=iw*min(1.0'' @ [bslash]
         @ '',ih/iw*9/16):ih*min(1.0'' @ [bslash] @ '',iw/ih*16/9):(iw - iw*min(1.0''
         @ [bslash] @ '',ih/iw*9/16))/2:(ih - ih*min(1.0'' @ [bslash]
         @ '',iw/ih*16/9))/2[fg],[fg]scale=1080:1920:force_original_aspect_ratio=decrease[fgs],''
         @ ''[bg][fgs]overlay=(W-w)/2:(H-h)/2[base],[base][1:v]overlay=0:0[outv]''"
proof (intro conjI)
  show g: "build_filtergraph crop_box out_w out_h srt_path
       = join '','' (filtergraph_parts crop_box out_w out_h srt_path)"
    by (simp add: build_filtergraph_def)
  show "build_filtergraph crop_box out_w out_h srt_path =
     (''[0:v]scale='' @ [squote] @ ''if(gte(iw/ih,'' @ str_int out_w @ ''/'' @ str_int out_h
        @ ''),-1,'' @ str_int out_w @ '')'' @ [squote] @ '':'' @ [squote] @ ''if(gte(iw/ih,''
        @ str_int out_w @ ''/'' @ str_int out_h @ ''),'' @ str_int out_h @ '',-1)'' @ [squote]
        @ '',boxblur=24:1,crop='' @ str_int out_w @ '':'' @ str_int out_h @ ''[bg]'')
     @ '','' @
     (case crop_box of
        Some (x, y, w, h) \<Rightarrow>
          if 0 < x \<and> 0 < y \<and> 0 < w \<and> 0 < h
          then ''[0:v]crop='' @ str_int w @ '':'' @ str_int h @ '':'' @ str_int x @ '':''
                 @ str_int y @ ''[fg]''
          else ''[0:v]crop=iw*min(1.0'' @ [bslash] @ '',ih/iw*9/16):ih*min(1.0'' @ [bslash]
                 @ '',iw/ih*16/9):(iw - iw*min(1.0'' @ [bslash] @ '',ih/iw*9/16))/2:(ih - ih*min(1.0''
                 @ [bslash] @ '',iw/ih*16/9))/2[fg]''
      | None \<Rightarrow>
          ''[0:v]crop=iw*min(1.0'' @ [bslash] @ '',ih/iw*9/16):ih*min(1.0'' @ [bslash]
            @ '',iw/ih*16/9):(iw - iw*min(1.0'' @ [bslash] @ '',ih/iw*9/16))/2:(ih - ih*min(1.0''
            @ [bslash] @ '',iw/ih*16/9))/2[fg]'')
     @ '','' @
     (''[fg]scale='' @ str_int out_w @ '':'' @ str_int out_h
        @ '':force_original_aspect_ratio=decrease[fgs]'')
     @ '','' @
     ''[bg][fgs]overlay=(W-w)/2:(H-h)/2[base]''
     @ '','' @
     (case srt_path of
        None \<Rightarrow> ''[base][1:v]overlay=0:0[outv]''
      | Some p \<Rightarrow>
          (''[base]subtitles='' @ [squote] @ escape_for_subtitles p @ [squote]
             @ '':force_style='' @ [squote] @
             (''FontName=DejaVu Sans'' @ [bslash] @ '',FontSize=13'' @ [bslash] @
              '',PrimaryColour=&H00FFFFFF&'' @ [bslash] @ '',BackColour=&H80000000&''
              @ [bslash] @ '',Outline=0'' @ [bslash] @ '',Shadow=0'' @ [bslash] @
              '',BorderStyle=3'' @ [bslash] @ '',Alignment=2'' @ [bslash] @ '',MarginV=120''
              @ [bslash] @ '',Bold=1'' @ [bslash] @ '',WrapStyle=2'')
             @ [squote] @ ''[base2]'')
          @ '','' @
          ''[base2][1:v]overlay=0:0[outv]'')"
    unfolding g filtergraph_parts_list
    by (simp add: subtitles_part_text background_part_def crop_part_def center_crop_part_def
        scale_part_def overlay_part_def template_part_def split: option.split prod.split)
  show "length (filtergraph_parts crop_box out_w out_h None) = 5"
    by (simp add: filtergraph_parts_list)
  show "length (filtergraph_parts crop_box out_w out_h (Some srt)) = 6"
    by (simp add: filtergraph_parts_list)
  show "take 4 (filtergraph_parts crop_box out_w out_h (Some srt))
       = take 4 (filtergraph_parts crop_box out_w out_h None)"
    by (simp add: filtergraph_parts_list)
  show "filtergraph_parts crop_box out_w out_h None ! 4 = ''[base][1:v]overlay=0:0[outv]''"
    by (simp add: filtergraph_parts_list template_part_def)
  show "filtergraph_parts crop_box out_w out_h (Some srt) ! 4
       = ''[base]subtitles='' @ [squote] @ escape_for_subtitles srt @ [squote]
           @ '':force_style='' @ [squote] @
           (''FontName=DejaVu Sans'' @ [bslash] @ '',FontSize=13'' @ [bslash] @
            '',PrimaryColour=&H00FFFFFF&'' @ [bslash] @ '',BackColour=&H80000000&''
            @ [bslash] @ '',Outline=0'' @ [bslash] @ '',Shadow=0'' @ [bslash] @
            '',BorderStyle=3'' @ [bslash] @ '',Alignment=2'' @ [bslash] @ '',MarginV=120''
            @ [bslash] @ '',Bold=1'' @ [bslash] @ '',WrapStyle=2'')
           @ [squote] @ ''[base2]''"
    by (simp add: filtergraph_parts_list subtitles_part_text)
  show "filtergraph_parts crop_box out_w out_h (Some srt) ! 5 = ''[base2][1:v]overlay=0:0[outv]''"
    by (simp add: filtergraph_parts_list template_part_def)
  show "build_filtergraph None 1080 1920 None =
       ''[0:v]scale='' @ [squote] @ ''if(gte(iw/ih,1080/1920),-1,1080)'' @ [squote] @ '':''
         @ [squote] @ ''if(gte(iw/ih,1080/1920),1920,-1)'' @ [squote]
         @ '',boxblur=24:1,crop=1080:1920[bg],[0:v]crop=iw*min(1.0'' @ [bslash]
         @ '',ih/iw*9/16):ih*min(1.0'' @ [bslash] @ '',iw/ih*16/9):(iw - iw*min(1.0''
         @ [bslash] @ '',ih/iw*9/16))/2:(ih - ih*min(1.0'' @ [bslash]
         @ '',iw/ih*16/9))/2[fg],[fg]scale=1080:1920:force_original_aspect_ratio=decrease[fgs],''
         @ ''[bg][fgs]overlay=(W-w)/2:(H-h)/2[base],[base][1:v]overlay=0:0[outv]''"
    unfolding build_filtergraph_def filtergraph_parts_list
    by (simp add: background_part_def center_crop_part_def scale_part_def overlay_part_def
        template_part_def str_int_1080 str_int_1920)
qed

subsection \<open>C2: the foreground stage\<close>

lemma str_int_150: "str_int 150 = ''150''"
  by (simp add: str_int_def str_nat.simps)

lemma str_int_0: "str_int 0 = ''0''"
  by (simp add: str_int_def str_nat.simps)

text \<open>A box whose four numbers are positive is cropped exactly.\<close>

lemma foreground_crops_positive_box:
  "0 < x \<Longrightarrow> 0 < y \<Longrightarrow> 0 < w \<Longrightarrow> 0 < h \<Longrightarrow>
   filtergraph_parts (Some (x, y, w, h)) out_w out_h srt ! 1
     = ''[0:v]crop='' @ str_int w @ '':'' @ str_int h @ '':'' @ str_int x @ '':'' @ str_int y
         @ ''[fg]''"
  by (simp add: filtergraph_parts_def Let_def crop_part_def split: option.split)

text \<open>A box with a positive width and height and its origin on an edge is not.\<close>

lemma foreground_falls_back_on_edge:
  "x \<le> 0 \<or> y \<le> 0 \<Longrightarrow>
   filtergraph_parts (Some (x, y, w, h)) out_w out_h srt ! 1 = center_crop_part"
  by (auto simp add: filtergraph_parts_def Let_def split: option.split)

text \<open>
  C2. The claim is that a crop rectangle with positive width and height, \<open>x = 0\<close> or
  \<open>y = 0\<close> included, is cropped exactly. The code tests all four numbers of the box: for the
  rectangle \<open>(0, 0, 150, 150)\<close>, which \<^verbatim>\<open>expand_crop_box\<close> returns in the boundary example,
  the foreground stage is the centered fallback and not \<^verbatim>\<open>crop=150:150:0:0\<close>.
\<close>

theorem zero_origin_crop_falls_back:
  "filtergraph_parts (Some (0, 0, 150, 150)) 1080 1920 None ! 1 = center_crop_part
   \<and> crop_part (0, 0, 150, 150) = ''[0:v]crop=150:150:0:0[fg]''
   \<and> center_crop_part \<noteq> crop_part (0, 0, 150, 150)"
proof (intro conjI)
  show "filtergraph_parts (Some (0, 0, 150, 150)) 1080 1920 None ! 1 = center_crop_part"
    by (simp add: filtergraph_parts_def Let_def)
  show c: "crop_part (0, 0, 150, 150) = ''[0:v]crop=150:150:0:0[fg]''"
    by (simp add: crop_part_def str_int_150 str_int_0)
  show "center_crop_part \<noteq> crop_part (0, 0, 150, 150)"
    unfolding c by (simp add: center_crop_part_def)
qed

section \<open>Region selection\<close>

subsection \<open>The stable descending sort puts the first maximal element in front\<close>

lemma last_filter_keep: "xs \<noteq> [] \<Longrightarrow> P (last xs) \<Longrightarrow> last (filter P xs) = last xs"
  by (induction xs) (auto simp: filter_empty_conv)

lemma sorted_le_last: "sorted zs \<Longrightarrow> z \<in> set zs \<Longrightarrow> z \<le> last zs"
  by (induction zs) auto

lemma filter_hd_split:
  assumes "filter P xs = s # t"
  shows "\<exists>pre post. xs = pre @ s # post \<and> (\<forall>u\<in>set pre. \<not> P u)"
  using assms
proof (induction xs)
  case Nil
  then show ?case by simp
next
  case (Cons x xs)
  show ?case
  proof (cases "P x")
    case True
    with Cons.prems have "x = s" by simp
    then have "x # xs = [] @ s # xs \<and> (\<forall>u\<in>set []. \<not> P u)" by simp
    then show ?thesis by blast
  next
    case False
    with Cons.prems have "filter P xs = s # t" by simp
    then obtain pre post where "xs = pre @ s # post" "\<forall>u\<in>set pre. \<not> P u"
      using Cons.IH by blast
    with False have "x # xs = (x # pre) @ s # post \<and> (\<forall>u\<in>set (x # pre). \<not> P u)"
      by simp
    then show ?thesis by blast
  qed
qed

lemma sorted_reverse_first_max:
  fixes k :: "'a \<Rightarrow> 'k::linorder"
  assumes "xs \<noteq> []"
  shows "\<exists>pre s post rest. xs = pre @ s # post \<and> (\<forall>p\<in>set pre. k p < k s)
           \<and> (\<forall>q\<in>set post. k q \<le> k s) \<and> sorted_reverse k xs = s # rest"
proof -
  define ys where "ys = sort_key k (rev xs)"
  define s where "s = last ys"
  define P where "P = (\<lambda>y. k y = k s)"
  have "length ys = length xs" by (simp add: ys_def)
  with assms have ne: "ys \<noteq> []" by (metis length_0_conv)
  have set_ys: "set ys = set xs" by (simp add: ys_def)
  have srt: "sorted (map k ys)" by (simp add: ys_def)
  have s_in: "s \<in> set xs" using ne set_ys last_in_set[OF ne] by (simp add: s_def)
  have le: "k y \<le> k s" if "y \<in> set xs" for y
  proof -
    from that have "k y \<in> set (map k ys)" by (simp add: set_ys)
    with srt have "k y \<le> last (map k ys)" by (rule sorted_le_last)
    then show ?thesis using ne by (simp add: last_map s_def)
  qed
  have "filter P ys = filter P (rev xs)"
    unfolding P_def ys_def by (rule sort_key_stable)
  then have st: "filter P ys = rev (filter P xs)" by (simp add: rev_filter)
  have "P (last ys)" by (simp add: P_def s_def)
  with ne have "last (filter P ys) = last ys" by (rule last_filter_keep)
  with st have l: "last (rev (filter P xs)) = s" by (simp add: s_def)
  have "P s" by (simp add: P_def)
  with s_in have fne: "filter P xs \<noteq> []" by (auto simp: filter_empty_conv)
  then have "hd (filter P xs) = s" using l by (simp add: last_rev)
  with fne have "filter P xs = s # tl (filter P xs)" by (cases "filter P xs") simp_all
  then have "\<exists>pre post. xs = pre @ s # post \<and> (\<forall>u\<in>set pre. \<not> P u)"
    by (rule filter_hd_split)
  then obtain pre post where xs: "xs = pre @ s # post" and pre: "\<forall>u\<in>set pre. \<not> P u"
    by blast
  have a: "\<forall>p\<in>set pre. k p < k s"
  proof
    fix p assume p: "p \<in> set pre"
    then have "k p \<le> k s" using le[of p] xs by simp
    moreover have "k p \<noteq> k s" using pre p by (simp add: P_def)
    ultimately show "k p < k s" by simp
  qed
  have b: "\<forall>q\<in>set post. k q \<le> k s" using le xs by simp
  have rne: "rev ys \<noteq> []" using ne by simp
  have "hd (rev ys) = s" using ne by (simp add: hd_rev s_def)
  with rne have "rev ys = s # tl (rev ys)" by (metis list.collapse)
  then have c: "sorted_reverse k xs = s # tl (rev ys)"
    by (simp only: sorted_reverse_def ys_def)
  from xs a b c have "xs = pre @ s # post \<and> (\<forall>p\<in>set pre. k p < k s)
      \<and> (\<forall>q\<in>set post. k q \<le> k s) \<and> sorted_reverse k xs = s # tl (rev ys)" by simp
  then show ?thesis by (intro exI)
qed

lemma primary_segment_first_longest:
  assumes "segs \<noteq> []"
  shows "\<exists>pre s post. segs = pre @ s # post \<and> (\<forall>p\<in>set pre. span rnd p < span rnd s)
           \<and> (\<forall>q\<in>set post. span rnd q \<le> span rnd s) \<and> primary_segment rnd segs = Some s"
proof -
  from sorted_reverse_first_max[OF assms, of "span rnd"]
  obtain pre s post rest where "segs = pre @ s # post" "\<forall>p\<in>set pre. span rnd p < span rnd s"
    "\<forall>q\<in>set post. span rnd q \<le> span rnd s" "sorted_reverse (span rnd) segs = s # rest"
    by blast
  then have "segs = pre @ s # post \<and> (\<forall>p\<in>set pre. span rnd p < span rnd s)
           \<and> (\<forall>q\<in>set post. span rnd q \<le> span rnd s) \<and> primary_segment rnd segs = Some s"
    by (simp add: primary_segment_def)
  then show ?thesis by (intro exI)
qed

lemma pick_primary_crop_Some:
  "segments crops_obj = Some segs \<Longrightarrow> primary_segment rnd segs = Some s \<Longrightarrow>
   pick_primary_crop rnd crops_obj = segment_box s"
  by (auto simp: pick_primary_crop_def getattr_def primary_segment_def sorted_reverse_def)

lemma first_of_sorted_by_start:
  fixes k :: "'a \<Rightarrow> 'k::linorder" and f :: "'a \<Rightarrow> 't::linorder"
  assumes "sorted (map f (pre @ s # post))" and "\<forall>p\<in>set pre. k p < k s"
    and "q \<in> set (pre @ s # post)" and "k q = k s"
  shows "f s \<le> f q"
proof -
  have "q \<notin> set pre"
  proof
    assume "q \<in> set pre"
    with assms(2) have "k q < k s" by blast
    with assms(4) show False by simp
  qed
  with assms(3) have "q = s \<or> q \<in> set post" by auto
  moreover have "\<forall>y\<in>set post. f s \<le> f y"
    using assms(1) by (simp add: sorted_append)
  ultimately show ?thesis by auto
qed

subsection \<open>C6: the longest region, the first of them in the sequence\<close>

text \<open>
  C6 as stated, with ties broken by \<open>start\<close>, fails: of two regions of equal time span the
  code takes the one that is listed first, here the one that starts later.
\<close>

theorem tie_break_is_not_by_start:
  "span id late_segment = span id early_segment
   \<and> getattr (seg_start early_segment) 0 < getattr (seg_start late_segment) 0
   \<and> primary_segment id [late_segment, early_segment] = Some late_segment
   \<and> pick_primary_crop id \<lparr>segments = Some [late_segment, early_segment]\<rparr> = Some (1, 1, 10, 10)"
  by code_simp

text \<open>
  C6, amended. For every non-empty detected-region set the resolver selects a region of
  maximal time span, and among the regions of maximal time span the one that comes first in
  the sequence: every region before it is strictly shorter, no region after it is longer.
  When the sequence is ordered by \<open>start\<close>, no region of the same time span starts earlier.
\<close>

theorem pick_primary_crop_first_longest:
  assumes "segments crops_obj = Some segs" and "segs \<noteq> []"
  shows "\<exists>pre s post. segs = pre @ s # post
           \<and> (\<forall>p\<in>set pre. span rnd p < span rnd s)
           \<and> (\<forall>q\<in>set post. span rnd q \<le> span rnd s)
           \<and> primary_segment rnd segs = Some s
           \<and> pick_primary_crop rnd crops_obj = segment_box s
           \<and> (sorted (map (\<lambda>r. getattr (seg_start r) 0) segs) \<longrightarrow>
                (\<forall>q\<in>set segs. span rnd q = span rnd s \<longrightarrow>
                   getattr (seg_start s) 0 \<le> getattr (seg_start q) 0))"
proof -
  from primary_segment_first_longest[OF assms(2), of rnd]
  obtain pre s post where xs: "segs = pre @ s # post"
    and a: "\<forall>p\<in>set pre. span rnd p < span rnd s"
    and b: "\<forall>q\<in>set post. span rnd q \<le> span rnd s"
    and c: "primary_segment rnd segs = Some s"
    by blast
  have d: "pick_primary_crop rnd crops_obj = segment_box s"
    using assms(1) c by (rule pick_primary_crop_Some)
  have e: "sorted (map (\<lambda>r. getattr (seg_start r) 0) segs) \<longrightarrow>
             (\<forall>q\<in>set segs. span rnd q = span rnd s \<longrightarrow>
                getattr (seg_start s) 0 \<le> getattr (seg_start q) 0)"
  proof (intro impI ballI)
    fix q
    assume "sorted (map (\<lambda>r. getattr (seg_start r) 0) segs)" and "q \<in> set segs"
      and "span rnd q = span rnd s"
    then show "getattr (seg_start s) 0 \<le> getattr (seg_start q) 0"
      using first_of_sorted_by_start[of "\<lambda>r. getattr (seg_start r) 0" pre s post "span rnd" q] a
      unfolding xs by blast
  qed
  from xs a b c d e have "segs = pre @ s # post
           \<and> (\<forall>p\<in>set pre. span rnd p < span rnd s)
           \<and> (\<forall>q\<in>set post. span rnd q \<le> span rnd s)
           \<and> primary_segment rnd segs = Some s
           \<and> pick_primary_crop rnd crops_obj = segment_box s
           \<and> (sorted (map (\<lambda>r. getattr (seg_start r) 0) segs) \<longrightarrow>
                (\<forall>q\<in>set segs. span rnd q = span rnd s \<longrightarrow>
                   getattr (seg_start s) 0 \<le> getattr (seg_start q) 0))"
    by blast
  then show ?thesis by (intro exI)
qed

theorem pick_primary_crop_first_longest_witness:
  "segments \<lparr>segments = Some [early_segment, flat_segment, late_segment]\<rparr>
     = Some [early_segment, flat_segment, late_segment]
   \<and> [early_segment, flat_segment, late_segment] \<noteq> []
   \<and> sorted (map (\<lambda>r. getattr (seg_start r) 0) [early_segment, flat_segment, late_segment])
   \<and> primary_segment id [early_segment, flat_segment, late_segment] = Some flat_segment
   \<and> primary_segment id [early_segment, late_segment] = Some early_segment
   \<and> (\<exists>pre s post. [early_segment, late_segment] = pre @ s # post
           \<and> (\<forall>p\<in>set pre. span id p < span id s)
           \<and> (\<forall>q\<in>set post. span id q \<le> span id s)
           \<and> primary_segment id [early_segment, late_segment] = Some s
           \<and> pick_primary_crop id \<lparr>segments = Some [early_segment, late_segment]\<rparr>
               = segment_box s
           \<and> (sorted (map (\<lambda>r. getattr (seg_start r) 0) [early_segment, late_segment]) \<longrightarrow>
                (\<forall>q\<in>set [early_segment, late_segment]. span id q = span id s \<longrightarrow>
                   getattr (seg_start s) 0 \<le> getattr (seg_start q) 0)))"
proof -
  have 1: "segments \<lparr>segments = Some [early_segment, flat_segment, late_segment]\<rparr>
     = Some [early_segment, flat_segment, late_segment]" by simp
  have 2: "[early_segment, flat_segment, late_segment] \<noteq> []" by simp
  have 3: "sorted (map (\<lambda>r. getattr (seg_start r) 0) [early_segment, flat_segment, late_segment])"
    by code_simp
  have 4: "primary_segment id [early_segment, flat_segment, late_segment] = Some flat_segment"
    by code_simp
  have 5: "primary_segment id [early_segment, late_segment] = Some early_segment"
    by code_simp
  have 6: "segments \<lparr>segments = Some [early_segment, late_segment]\<rparr>
     = Some [early_segment, late_segment]" by simp
  have 7: "[early_segment, late_segment] \<noteq> []" by simp
  from pick_primary_crop_first_longest[OF 6 7, of id] 1 2 3 4 5
  show ?thesis by blast
qed

subsection \<open>C8: a degenerate region is rejected\<close>

lemma py_int_nonpos: "r \<le> 0 \<Longrightarrow> py_int r \<le> 0"
  using py_int_mono[of r 0] by (simp add: py_int_def)

lemma segment_box_degenerate:
  "getattr (seg_w s) 0 \<le> 0 \<or> getattr (seg_h s) 0 \<le> 0 \<Longrightarrow> segment_box s = None"
  using py_int_nonpos[of "getattr (seg_w s) 0"] py_int_nonpos[of "getattr (seg_h s) 0"]
  by (auto simp: segment_box_def Let_def)

lemma segment_box_positive: "segment_box s = Some (x, y, w, h) \<Longrightarrow> 0 < w \<and> 0 < h"
  by (auto simp: segment_box_def Let_def split: if_splits)

lemma pick_primary_crop_positive:
  "pick_primary_crop rnd crops_obj = Some (x, y, w, h) \<Longrightarrow> 0 < w \<and> 0 < h"
  by (auto simp: pick_primary_crop_def Let_def dest: segment_box_positive
      split: if_splits option.splits)

lemma smart_crop_None:
  "resize env clip (pyannote_token args) = Inr crops_obj \<Longrightarrow>
   pick_primary_crop rnd crops_obj = None \<Longrightarrow> fst (smart_crop rnd env args clip) = None"
  by (simp add: smart_crop_def)

text \<open>
  C8. When the selected region has a width or a height that is zero (or negative),
  \<^verbatim>\<open>pick_primary_crop\<close> returns \<^verbatim>\<open>None\<close>, and so does the crop resolution of the driver for
  a clip on which the detector returned that set; a rectangle that \<^verbatim>\<open>pick_primary_crop\<close>
  does return has a positive width and a positive height.
\<close>

theorem pick_primary_crop_rejects_degenerate:
  "(segments crops_obj = Some segs \<and> primary_segment rnd segs = Some s
      \<and> (getattr (seg_w s) 0 \<le> 0 \<or> getattr (seg_h s) 0 \<le> 0)
     \<longrightarrow> pick_primary_crop rnd crops_obj = None
         \<and> (resize env clip (pyannote_token args) = Inr crops_obj
              \<longrightarrow> fst (smart_crop rnd env args clip) = None))
   \<and> (pick_primary_crop rnd crops_obj = Some (x, y, w, h) \<longrightarrow> 0 < w \<and> 0 < h)"
proof (intro conjI impI)
  assume a: "segments crops_obj = Some segs \<and> primary_segment rnd segs = Some s
      \<and> (getattr (seg_w s) 0 \<le> 0 \<or> getattr (seg_h s) 0 \<le> 0)"
  then have "pick_primary_crop rnd crops_obj = segment_box s"
    using pick_primary_crop_Some by blast
  with a show n: "pick_primary_crop rnd crops_obj = None"
    by (simp add: segment_box_degenerate)
  assume "resize env clip (pyannote_token args) = Inr crops_obj"
  then show "fst (smart_crop rnd env args clip) = None"
    using n by (rule smart_crop_None)
next
  assume "pick_primary_crop rnd crops_obj = Some (x, y, w, h)"
  then show "0 < w" using pick_primary_crop_positive by blast
next
  assume "pick_primary_crop rnd crops_obj = Some (x, y, w, h)"
  then show "0 < h" using pick_primary_crop_positive by blast
qed

theorem pick_primary_crop_rejects_degenerate_witness:
  "segments \<lparr>segments = Some [late_segment, flat_segment]\<rparr> = Some [late_segment, flat_segment]
   \<and> primary_segment id [late_segment, flat_segment] = Some flat_segment
   \<and> getattr (seg_w flat_segment) 0 \<le> 0
   \<and> resize flat_env ''in/clip_1.mp4'' (pyannote_token example_args)
        = Inr \<lparr>segments = Some [late_segment, flat_segment]\<rparr>
   \<and> pick_primary_crop id \<lparr>segments = Some [late_segment, flat_segment]\<rparr> = None
   \<and> fst (smart_crop id flat_env example_args ''in/clip_1.mp4'') = None
   \<and> pick_primary_crop id \<lparr>segments = Some [late_segment, early_segment]\<rparr> = Some (1, 1, 10, 10)
   \<and> (0 :: int) < 10"
proof -
  have 1: "segments \<lparr>segments = Some [late_segment, flat_segment]\<rparr>
             = Some [late_segment, flat_segment]" by simp
  have 2: "primary_segment id [late_segment, flat_segment] = Some flat_segment" by code_simp
  have 3: "getattr (seg_w flat_segment) 0 \<le> 0" by code_simp
  have 4: "pick_primary_crop id \<lparr>segments = Some [late_segment, early_segment]\<rparr>
             = Some (1, 1, 10, 10)" by code_simp
  have 5: "resize flat_env ''in/clip_1.mp4'' (pyannote_token example_args)
             = Inr \<lparr>segments = Some [late_segment, flat_segment]\<rparr>"
    by (simp add: flat_env_def flat_resize_def)
  from pick_primary_crop_rejects_degenerate
    [where crops_obj = "\<lparr>segments = Some [late_segment, flat_segment]\<rparr>"
       and segs = "[late_segment, flat_segment]" and rnd = id and s = flat_segment
       and env = flat_env and clip = "''in/clip_1.mp4''" and args = example_args]
  have 6: "pick_primary_crop id \<lparr>segments = Some [late_segment, flat_segment]\<rparr> = None
           \<and> fst (smart_crop id flat_env example_args ''in/clip_1.mp4'') = None"
    using 1 2 3 5 by blast
  from pick_primary_crop_rejects_degenerate
    [where rnd = id and crops_obj = "\<lparr>segments = Some [late_segment, early_segment]\<rparr>"
       and x = 1 and y = 1 and w = 10 and h = 10] 4
  have 7: "(0 :: int) < 10" by blast
  from 1 2 3 4 5 6 7 show ?thesis by blast
qed

section \<open>The driver\<close>

subsection \<open>C9: which subtitle file a clip gets\<close>

text \<open>
  C9. With mode \<open>off\<close> the result is \<^verbatim>\<open>None\<close> whatever files exist. With mode \<open>file\<close> and an
  explicit file that does not exist the result is \<^verbatim>\<open>None\<close> and the warning is printed; the
  function has no exceptional result. With mode \<open>auto\<close>, when the file next to the clip
  (the clip's name with the suffix \<^verbatim>\<open>.srt\<close>) exists, it is chosen, also when the candidate
  in the subtitle directory exists.
\<close>

theorem choose_subtitles_modes:
  "(subs_mode args = Off \<longrightarrow> choose_subtitles env args clip = (None, []))
   \<and> (subs_mode args = File \<and> subs_file args \<noteq> [] \<and> \<not> path_exists env (subs_file args)
        \<longrightarrow> choose_subtitles env args clip = (None, [Warn_subs_file_not_found]))
   \<and> (subs_mode args = Auto \<and> path_exists env (with_suffix clip ''.srt'')
        \<and> path_exists env (joinpath (subs_dir args) (path_stem clip @ ''.srt''))
        \<longrightarrow> choose_subtitles env args clip = (Some (with_suffix clip ''.srt''), []))"
  by (simp add: choose_subtitles_def)

theorem choose_subtitles_modes_witness:
  "subs_mode (example_args\<lparr>subs_mode := Off\<rparr>) = Off
   \<and> choose_subtitles example_env (example_args\<lparr>subs_mode := Off\<rparr>) ''in/clip_1.mp4'' = (None, [])
   \<and> subs_mode (example_args\<lparr>subs_mode := File, subs_file := ''missing.srt''\<rparr>) = File
   \<and> subs_file (example_args\<lparr>subs_mode := File, subs_file := ''missing.srt''\<rparr>) \<noteq> []
   \<and> \<not> path_exists example_env
         (subs_file (example_args\<lparr>subs_mode := File, subs_file := ''missing.srt''\<rparr>))
   \<and> choose_subtitles example_env
         (example_args\<lparr>subs_mode := File, subs_file := ''missing.srt''\<rparr>) ''in/clip_1.mp4''
       = (None, [Warn_subs_file_not_found])
   \<and> subs_mode example_args = Auto
   \<and> with_suffix ''in/clip_1.mp4'' ''.srt'' = ''in/clip_1.srt''
   \<and> joinpath (subs_dir example_args) (path_stem ''in/clip_1.mp4'' @ ''.srt'') = ''subs/clip_1.srt''
   \<and> path_exists example_env (with_suffix ''in/clip_1.mp4'' ''.srt'')
   \<and> path_exists example_env (joinpath (subs_dir example_args) (path_stem ''in/clip_1.mp4'' @ ''.srt''))
   \<and> choose_subtitles example_env example_args ''in/clip_1.mp4'' = (Some ''in/clip_1.srt'', [])"
proof -
  have 1: "subs_mode (example_args\<lparr>subs_mode := Off\<rparr>) = Off" by simp
  have 2: "subs_mode (example_args\<lparr>subs_mode := File, subs_file := ''missing.srt''\<rparr>) = File"
    by simp
  have 3: "subs_file (example_args\<lparr>subs_mode := File, subs_file := ''missing.srt''\<rparr>) \<noteq> []"
    by simp
  have 4: "\<not> path_exists example_env
         (subs_file (example_args\<lparr>subs_mode := File, subs_file := ''missing.srt''\<rparr>))"
    by (simp add: example_env_def example_exists_def)
  have 5: "subs_mode example_args = Auto" by (simp add: example_args_def)
  have 6: "with_suffix ''in/clip_1.mp4'' ''.srt'' = ''in/clip_1.srt''" by code_simp
  have 7: "joinpath (subs_dir example_args) (path_stem ''in/clip_1.mp4'' @ ''.srt'')
             = ''subs/clip_1.srt''" by code_simp
  have 8: "path_exists example_env (with_suffix ''in/clip_1.mp4'' ''.srt'')"
    unfolding 6 by (simp add: example_env_def example_exists_def)
  have 9: "path_exists example_env
             (joinpath (subs_dir example_args) (path_stem ''in/clip_1.mp4'' @ ''.srt''))"
    unfolding 7 by (simp add: example_env_def example_exists_def)
  from choose_subtitles_modes[of "example_args\<lparr>subs_mode := Off\<rparr>" example_env
      "''in/clip_1.mp4''"] 1
  have a: "choose_subtitles example_env (example_args\<lparr>subs_mode := Off\<rparr>) ''in/clip_1.mp4''
             = (None, [])" by blast
  from choose_subtitles_modes[of "example_args\<lparr>subs_mode := File, subs_file := ''missing.srt''\<rparr>"
      example_env "''in/clip_1.mp4''"] 2 3 4
  have b: "choose_subtitles example_env
         (example_args\<lparr>subs_mode := File, subs_file := ''missing.srt''\<rparr>) ''in/clip_1.mp4''
       = (None, [Warn_subs_file_not_found])" by blast
  from choose_subtitles_modes[of example_args example_env "''in/clip_1.mp4''"] 5 8 9
  have "choose_subtitles example_env example_args ''in/clip_1.mp4''
          = (Some (with_suffix ''in/clip_1.mp4'' ''.srt''), [])" by blast
  then have c: "choose_subtitles example_env example_args ''in/clip_1.mp4''
                  = (Some ''in/clip_1.srt'', [])"
    unfolding 6 .
  from 1 2 3 4 5 6 7 8 9 a b c show ?thesis by blast
qed

subsection \<open>One iteration and the loop\<close>

lemma design_clip_ok:
  assumes "exit_ok env (clip_cmd rnd env args clip)"
  shows "design_clip rnd env args clip st =
           (Inr (), st\<lparr>printed := printed st @ clip_messages rnd env args clip,
                        written := written st @ [destination args clip]\<rparr>)"
  using assms
  by (simp add: design_clip_def ff_design_def run_def say_def clip_cmd_def clip_messages_def
      Let_def case_prod_beta)

lemma design_clip_fail:
  assumes "\<not> exit_ok env (clip_cmd rnd env args clip)"
  shows "design_clip rnd env args clip st =
           (Inl (CalledProcessError (clip_cmd rnd env args clip)),
            st\<lparr>printed := printed st @ clip_messages rnd env args clip\<rparr>)"
  using assms
  by (simp add: design_clip_def ff_design_def run_def say_def clip_cmd_def clip_messages_def
      Let_def case_prod_beta)

lemma main_loop_ok:
  assumes "\<forall>c\<in>set inputs. exit_ok env (clip_cmd rnd env args c)"
  shows "main_loop rnd env args inputs st =
           (Inr (), st\<lparr>printed := printed st @ concat (map (clip_messages rnd env args) inputs),
                        written := written st @ map (destination args) inputs\<rparr>)"
  using assms
proof (induction inputs arbitrary: st)
  case Nil
  show ?case by simp
next
  case (Cons c inputs)
  from Cons.prems have c: "exit_ok env (clip_cmd rnd env args c)"
    and rest: "\<forall>c\<in>set inputs. exit_ok env (clip_cmd rnd env args c)" by simp_all
  show ?case
    by (simp add: design_clip_ok[OF c] Cons.IH[OF rest])
qed

lemma main_loop_fail:
  assumes "\<forall>p\<in>set pre. exit_ok env (clip_cmd rnd env args p)"
    and "\<not> exit_ok env (clip_cmd rnd env args c)"
  shows "main_loop rnd env args (pre @ c # post) st =
           (Inl (CalledProcessError (clip_cmd rnd env args c)),
            st\<lparr>printed := printed st @ concat (map (clip_messages rnd env args) (pre @ [c])),
               written := written st @ map (destination args) pre\<rparr>)"
  using assms(1)
proof (induction pre arbitrary: st)
  case Nil
  show ?case by (simp add: design_clip_fail[OF assms(2)])
next
  case (Cons p pre)
  from Cons.prems have p: "exit_ok env (clip_cmd rnd env args p)"
    and rest: "\<forall>p\<in>set pre. exit_ok env (clip_cmd rnd env args p)" by simp_all
  show ?case
    by (simp add: design_clip_ok[OF p] Cons.IH[OF rest])
qed

lemma smart_crop_detection_raises:
  assumes "\<not> disable_smart_crop args" and "pyannote_token args \<noteq> []"
    and "resize env clip (pyannote_token args) = Inl e"
  shows "smart_crop rnd env args clip = (None, [Warn_resize_failed e])"
  using assms by (simp add: smart_crop_def)

lemma fallback_foreground:
  "filtergraph_parts None out_w out_h srt ! 1 = center_crop_part"
  by (simp add: filtergraph_parts_def Let_def split: option.split)

lemma main_ok:
  assumes "path_exists env (template args)"
    and "sorted_glob env (input_dir args) = inputs" and "inputs \<noteq> []"
    and "\<forall>c\<in>set inputs. exit_ok env (clip_cmd rnd env args c)"
  shows "main rnd env args st =
           (Inr (),
            st\<lparr>printed := printed st @ concat (map (clip_messages rnd env args) inputs)
                              @ [All_designed],
               written := written st @ map (destination args) inputs\<rparr>)"
proof -
  from assms(3) obtain c rest where i: "inputs = c # rest" by (cases inputs) auto
  have "main_loop rnd env args (c # rest) st =
          (Inr (), st\<lparr>printed := printed st @ concat (map (clip_messages rnd env args) (c # rest)),
                       written := written st @ map (destination args) (c # rest)\<rparr>)"
    using assms(4) unfolding i by (rule main_loop_ok)
  then show ?thesis
    using assms(1,2) unfolding i by (simp add: main_def say_def)
qed

lemma main_fail:
  assumes "path_exists env (template args)"
    and "sorted_glob env (input_dir args) = pre @ c # post"
    and "\<forall>p\<in>set pre. exit_ok env (clip_cmd rnd env args p)"
    and "\<not> exit_ok env (clip_cmd rnd env args c)"
  shows "main rnd env args st =
           (Inl (CalledProcessError (clip_cmd rnd env args c)),
            st\<lparr>printed := printed st @ concat (map (clip_messages rnd env args) (pre @ [c])),
               written := written st @ map (destination args) pre\<rparr>)"
proof -
  obtain d rest where i: "pre @ c # post = d # rest" by (cases pre) auto
  have "main_loop rnd env args (pre @ c # post) st =
          (Inl (CalledProcessError (clip_cmd rnd env args c)),
            st\<lparr>printed := printed st @ concat (map (clip_messages rnd env args) (pre @ [c])),
               written := written st @ map (destination args) pre\<rparr>)"
    using assms(3,4) by (rule main_loop_fail)
  then show ?thesis
    using assms(1,2) unfolding i by (simp add: main_def)
qed

lemma example_destinations:
  "destination example_args ''in/clip_1.mp4'' = ''out/clip_1_vertical.mp4''"
  "destination example_args ''in/clip_2.mp4'' = ''out/clip_2_vertical.mp4''"
  "destination example_args ''in/clip_3.mp4'' = ''out/clip_3_vertical.mp4''"
  by code_simp+

lemma clip_cmd_source: "clip_cmd rnd env args clip ! 3 = clip"
  by (simp add: clip_cmd_def ff_cmd_def Let_def)

subsection \<open>C5: a detector that raises does not stop the batch\<close>

text \<open>
  C5. In a batch whose renders succeed, every clip is rendered and its output written, in
  the order of the batch. When the detector raises for a clip, the driver prints the
  warning, the crop of that clip is \<^verbatim>\<open>None\<close>, so that its foreground stage is the centered
  fallback, and its output is written like the others. In the batch of three clips where the
  detector raises for the second, the three outputs are written.
\<close>

theorem batch_survives_detection_failure:
  assumes "path_exists env (template args)"
    and "sorted_glob env (input_dir args) = inputs" and "inputs \<noteq> []"
    and "\<forall>c\<in>set inputs. exit_ok env (clip_cmd rnd env args c)"
  shows "main rnd env args st =
           (Inr (),
            st\<lparr>printed := printed st @ concat (map (clip_messages rnd env args) inputs)
                              @ [All_designed],
               written := written st @ map (destination args) inputs\<rparr>)
       \<and> (\<forall>c\<in>set inputs. \<forall>e.
            \<not> disable_smart_crop args \<and> pyannote_token args \<noteq> []
              \<and> resize env c (pyannote_token args) = Inl e \<longrightarrow>
            smart_crop rnd env args c = (None, [Warn_resize_failed e])
            \<and> clip_cmd rnd env args c =
                ff_cmd c (destination args c) (template args) None (width args) (height args)
                  (fst (choose_subtitles env args c))
            \<and> filtergraph_parts None (width args) (height args)
                  (fst (choose_subtitles env args c)) ! 1 = center_crop_part
            \<and> Warn_resize_failed e \<in> set (printed (snd (main rnd env args st)))
            \<and> destination args c \<in> set (written (snd (main rnd env args st))))"
proof (intro conjI ballI allI impI)
  show m: "main rnd env args st =
           (Inr (),
            st\<lparr>printed := printed st @ concat (map (clip_messages rnd env args) inputs)
                              @ [All_designed],
               written := written st @ map (destination args) inputs\<rparr>)"
    using assms by (rule main_ok)
  fix c e
  assume c: "c \<in> set inputs"
    and "\<not> disable_smart_crop args \<and> pyannote_token args \<noteq> []
           \<and> resize env c (pyannote_token args) = Inl e"
  then show s: "smart_crop rnd env args c = (None, [Warn_resize_failed e])"
    by (simp add: smart_crop_detection_raises)
  show "clip_cmd rnd env args c =
          ff_cmd c (destination args c) (template args) None (width args) (height args)
            (fst (choose_subtitles env args c))"
    by (simp add: clip_cmd_def s)
  show "filtergraph_parts None (width args) (height args)
          (fst (choose_subtitles env args c)) ! 1 = center_crop_part"
    by (rule fallback_foreground)
  have "Warn_resize_failed e \<in> set (clip_messages rnd env args c)"
    by (simp add: clip_messages_def s)
  with c show "Warn_resize_failed e \<in> set (printed (snd (main rnd env args st)))"
    unfolding m by auto
  from c show "destination args c \<in> set (written (snd (main rnd env args st)))"
    unfolding m by simp
qed

theorem batch_survives_detection_failure_witness:
  "path_exists example_env (template example_args)
   \<and> sorted_glob example_env (input_dir example_args)
        = [''in/clip_1.mp4'', ''in/clip_2.mp4'', ''in/clip_3.mp4'']
   \<and> [''in/clip_1.mp4'', ''in/clip_2.mp4'', ''in/clip_3.mp4''] \<noteq> []
   \<and> exit_ok example_env (clip_cmd id example_env example_args ''in/clip_1.mp4'')
   \<and> exit_ok example_env (clip_cmd id example_env example_args ''in/clip_2.mp4'')
   \<and> exit_ok example_env (clip_cmd id example_env example_args ''in/clip_3.mp4'')
   \<and> \<not> disable_smart_crop example_args \<and> pyannote_token example_args \<noteq> []
   \<and> resize example_env ''in/clip_2.mp4'' (pyannote_token example_args) = Inl ''no speaker found''
   \<and> fst (main id example_env example_args empty_world) = Inr ()
   \<and> written (snd (main id example_env example_args empty_world))
        = [''out/clip_1_vertical.mp4'', ''out/clip_2_vertical.mp4'', ''out/clip_3_vertical.mp4'']
   \<and> smart_crop id example_env example_args ''in/clip_2.mp4''
        = (None, [Warn_resize_failed ''no speaker found''])
   \<and> clip_cmd id example_env example_args ''in/clip_2.mp4'' =
        ff_cmd ''in/clip_2.mp4'' (destination example_args ''in/clip_2.mp4'')
          (template example_args) None (width example_args) (height example_args)
          (fst (choose_subtitles example_env example_args ''in/clip_2.mp4''))
   \<and> filtergraph_parts None (width example_args) (height example_args)
        (fst (choose_subtitles example_env example_args ''in/clip_2.mp4'')) ! 1 = center_crop_part
   \<and> fst (smart_crop id example_env example_args ''in/clip_1.mp4'') = Some (75, 25, 150, 150)"
proof -
  have 1: "path_exists example_env (template example_args)"
    by (simp add: example_env_def example_args_def example_exists_def)
  have 2: "sorted_glob example_env (input_dir example_args)
             = [''in/clip_1.mp4'', ''in/clip_2.mp4'', ''in/clip_3.mp4'']"
    by (simp add: example_env_def example_glob_def)
  have 3: "[''in/clip_1.mp4'', ''in/clip_2.mp4'', ''in/clip_3.mp4''] \<noteq> []" by simp
  have 4: "\<forall>c\<in>set [''in/clip_1.mp4'', ''in/clip_2.mp4'', ''in/clip_3.mp4''].
             exit_ok example_env (clip_cmd id example_env example_args c)"
    by (simp add: example_env_def always_ok_def)
  have 5: "\<not> disable_smart_crop example_args \<and> pyannote_token example_args \<noteq> []
            \<and> resize example_env ''in/clip_2.mp4'' (pyannote_token example_args)
                = Inl ''no speaker found''"
    by (simp add: example_env_def example_args_def example_resize_def)
  have 6: "''in/clip_2.mp4'' \<in> set [''in/clip_1.mp4'', ''in/clip_2.mp4'', ''in/clip_3.mp4'']"
    by simp
  have 7: "fst (smart_crop id example_env example_args ''in/clip_1.mp4'') = Some (75, 25, 150, 150)"
    by code_simp
  note t = batch_survives_detection_failure[OF 1 2 3 4, of empty_world]
  from t have m: "main id example_env example_args empty_world =
      (Inr (),
       empty_world\<lparr>printed := printed empty_world
            @ concat (map (clip_messages id example_env example_args)
                [''in/clip_1.mp4'', ''in/clip_2.mp4'', ''in/clip_3.mp4'']) @ [All_designed],
          written := written empty_world
            @ map (destination example_args)
                [''in/clip_1.mp4'', ''in/clip_2.mp4'', ''in/clip_3.mp4'']\<rparr>)"
    by (rule conjunct1)
  have a: "fst (main id example_env example_args empty_world) = Inr ()"
    unfolding m by simp
  have b: "written (snd (main id example_env example_args empty_world))
        = [''out/clip_1_vertical.mp4'', ''out/clip_2_vertical.mp4'', ''out/clip_3_vertical.mp4'']"
    unfolding m by (simp add: example_destinations empty_world_def)
  from t 6 5 have c: "smart_crop id example_env example_args ''in/clip_2.mp4''
        = (None, [Warn_resize_failed ''no speaker found''])
     \<and> clip_cmd id example_env example_args ''in/clip_2.mp4'' =
        ff_cmd ''in/clip_2.mp4'' (destination example_args ''in/clip_2.mp4'')
          (template example_args) None (width example_args) (height example_args)
          (fst (choose_subtitles example_env example_args ''in/clip_2.mp4''))
     \<and> filtergraph_parts None (width example_args) (height example_args)
        (fst (choose_subtitles example_env example_args ''in/clip_2.mp4'')) ! 1 = center_crop_part"
    by blast
  from 4 have 8: "exit_ok example_env (clip_cmd id example_env example_args ''in/clip_1.mp4'')
      \<and> exit_ok example_env (clip_cmd id example_env example_args ''in/clip_2.mp4'')
      \<and> exit_ok example_env (clip_cmd id example_env example_args ''in/clip_3.mp4'')"
    by simp
  from 1 2 3 8 5 7 a b c show ?thesis by blast
qed

subsection \<open>C10: a render that fails stops the batch\<close>

text \<open>
  C10. When the rendering engine exits with a non-zero status for a clip, \<^verbatim>\<open>run\<close> raises
  \<^verbatim>\<open>CalledProcessError\<close> and \<^verbatim>\<open>main\<close> ends with that exception: nothing is printed or
  written for a later clip of the sorted batch, whatever the later clips are, and the
  outputs of the earlier clips stay written.
\<close>

theorem render_failure_aborts_batch:
  assumes "path_exists env (template args)"
    and "sorted_glob env (input_dir args) = pre @ c # post"
    and "\<forall>p\<in>set pre. exit_ok env (clip_cmd rnd env args p)"
    and "\<not> exit_ok env (clip_cmd rnd env args c)"
  shows "main rnd env args st =
           (Inl (CalledProcessError (clip_cmd rnd env args c)),
            st\<lparr>printed := printed st @ concat (map (clip_messages rnd env args) (pre @ [c])),
               written := written st @ map (destination args) pre\<rparr>)
       \<and> main_loop rnd env args (pre @ c # post) st = main_loop rnd env args (pre @ [c]) st"
proof
  show "main rnd env args st =
           (Inl (CalledProcessError (clip_cmd rnd env args c)),
            st\<lparr>printed := printed st @ concat (map (clip_messages rnd env args) (pre @ [c])),
               written := written st @ map (destination args) pre\<rparr>)"
    using assms by (rule main_fail)
  show "main_loop rnd env args (pre @ c # post) st = main_loop rnd env args (pre @ [c]) st"
    using main_loop_fail[OF assms(3,4), of post st] main_loop_fail[OF assms(3,4), of "[]" st]
    by simp
qed

theorem render_failure_aborts_batch_witness:
  "path_exists failing_env (template example_args)
   \<and> sorted_glob failing_env (input_dir example_args)
        = [''in/clip_1.mp4''] @ ''in/clip_2.mp4'' # [''in/clip_3.mp4'']
   \<and> exit_ok failing_env (clip_cmd id failing_env example_args ''in/clip_1.mp4'')
   \<and> \<not> exit_ok failing_env (clip_cmd id failing_env example_args ''in/clip_2.mp4'')
   \<and> fst (main id failing_env example_args empty_world)
        = Inl (CalledProcessError (clip_cmd id failing_env example_args ''in/clip_2.mp4''))
   \<and> written (snd (main id failing_env example_args empty_world)) = [''out/clip_1_vertical.mp4'']
   \<and> main_loop id failing_env example_args
        ([''in/clip_1.mp4''] @ ''in/clip_2.mp4'' # [''in/clip_3.mp4'']) empty_world
      = main_loop id failing_env example_args ([''in/clip_1.mp4''] @ [''in/clip_2.mp4''])
          empty_world"
proof -
  have 1: "path_exists failing_env (template example_args)"
    by (simp add: failing_env_def example_args_def example_exists_def)
  have 2: "sorted_glob failing_env (input_dir example_args)
             = [''in/clip_1.mp4''] @ ''in/clip_2.mp4'' # [''in/clip_3.mp4'']"
    by (simp add: failing_env_def example_glob_def)
  have 3: "\<forall>p\<in>set [''in/clip_1.mp4''].
             exit_ok failing_env (clip_cmd id failing_env example_args p)"
    by (simp add: failing_env_def fails_on_clip_2_def clip_cmd_source)
  have 4: "\<not> exit_ok failing_env (clip_cmd id failing_env example_args ''in/clip_2.mp4'')"
    by (simp add: failing_env_def fails_on_clip_2_def clip_cmd_source)
  note t = render_failure_aborts_batch[OF 1 2 3 4, of empty_world]
  from t have m: "main id failing_env example_args empty_world =
      (Inl (CalledProcessError (clip_cmd id failing_env example_args ''in/clip_2.mp4'')),
       empty_world\<lparr>printed := printed empty_world
            @ concat (map (clip_messages id failing_env example_args)
                ([''in/clip_1.mp4''] @ [''in/clip_2.mp4''])),
          written := written empty_world @ map (destination example_args) [''in/clip_1.mp4'']\<rparr>)"
    by (rule conjunct1)
  have a: "fst (main id failing_env example_args empty_world)
        = Inl (CalledProcessError (clip_cmd id failing_env example_args ''in/clip_2.mp4''))"
    unfolding m by simp
  have b: "written (snd (main id failing_env example_args empty_world))
             = [''out/clip_1_vertical.mp4'']"
    unfolding m by (simp add: example_destinations empty_world_def)
  from t have c: "main_loop id failing_env example_args
        ([''in/clip_1.mp4''] @ ''in/clip_2.mp4'' # [''in/clip_3.mp4'']) empty_world
      = main_loop id failing_env example_args ([''in/clip_1.mp4''] @ [''in/clip_2.mp4''])
          empty_world"
    by (rule conjunct2)
  from 3 have 5: "exit_ok failing_env (clip_cmd id failing_env example_args ''in/clip_1.mp4'')"
    by simp
  from 1 2 5 4 a b c show ?thesis by blast
qed


end
